theory Spec2Isabelle
  imports Main "HOL-Library.Word"
begin

unbundle bit_operations_syntax

section \<open>HTTP messages, byte strings and encodings\<close>

type_synonym byte = "8 word"
type_synonym bytes = "byte list"

text \<open>
  An inbound \<^verbatim>\<open>*http.Request\<close>, reduced to what the two handlers read: the method, the
  headers, the URL query and the result of \<^verbatim>\<open>ioutil.ReadAll(req.Body)\<close> (an error text or
  the bytes read).
\<close>

record Request =
  Method :: string
  Header :: "string \<rightharpoonup> string"
  Query :: "string \<rightharpoonup> string"
  Body :: "string + bytes"

text \<open>\<^verbatim>\<open>Header.Get\<close> and \<^verbatim>\<open>Values.Get\<close>: the empty string for a key that is absent.\<close>

definition Get :: "(string \<rightharpoonup> string) \<Rightarrow> string \<Rightarrow> string" where
  "Get h k = (case h k of None \<Rightarrow> [] | Some v \<Rightarrow> v)"

text \<open>
  What a handler leaves on its \<^verbatim>\<open>http.ResponseWriter\<close>:
  \<^item> \<open>HttpError hs msg code\<close>: headers \<open>hs\<close> set, then \<^verbatim>\<open>http.Error(w, msg, code)\<close>;
  \<^item> \<open>Written hs b\<close>: headers \<open>hs\<close> set, then \<^verbatim>\<open>w.Write(b)\<close> (status 200);
  \<^item> \<open>NoWrite\<close>: the handler returned without touching the writer; net/http then sends
    status 200 with an empty body;
  \<^item> \<open>Panicked\<close>: the handler panicked (index out of range, nil dereference); net/http
    recovers, nothing is answered.
\<close>

datatype Response =
    HttpError "(string \<times> string) list" string nat
  | Written "(string \<times> string) list" bytes
  | NoWrite
  | Panicked

fun statusCode :: "Response \<Rightarrow> nat option" where
  "statusCode (HttpError hs msg code) = Some code"
| "statusCode (Written hs b) = Some 200"
| "statusCode NoWrite = Some 200"
| "statusCode Panicked = None"

fun responseBody :: "Response \<Rightarrow> bytes option" where
  "responseBody (Written hs b) = Some b"
| "responseBody NoWrite = Some []"
| "responseBody (HttpError hs msg code) = None"
| "responseBody Panicked = None"

definition StatusText :: "nat \<Rightarrow> string" where
  "StatusText code =
     (if code = 400 then ''Bad Request''
      else if code = 401 then ''Unauthorized''
      else if code = 429 then ''Too Many Requests''
      else [])"

text \<open>\<^verbatim>\<open>hex.EncodeToString\<close>: two lower-case hexadecimal digits per byte.\<close>

definition hexDigit :: "nat \<Rightarrow> char" where
  "hexDigit n = ''0123456789abcdef'' ! n"

definition EncodeToString :: "bytes \<Rightarrow> string" where
  "EncodeToString bs =
     concat (map (\<lambda>b. [hexDigit (unat b div 16), hexDigit (unat b mod 16)]) bs)"

text \<open>
  \<^verbatim>\<open>binary.BigEndian.Uint16\<close> panics on a slice shorter than two bytes (\<open>None\<close>);
  \<open>putUint16\<close> is what \<^verbatim>\<open>cryptobyte.Builder.AddUint16\<close> appends.
\<close>

definition Uint16 :: "bytes \<Rightarrow> 16 word option" where
  "Uint16 b =
     (case b of
        b0 # b1 # rest \<Rightarrow> Some (ucast b1 OR push_bit 8 (ucast b0))
      | _ \<Rightarrow> None)"

definition putUint16 :: "16 word \<Rightarrow> bytes" where
  "putUint16 v = [ucast (drop_bit 8 v), ucast v]"

text \<open>\<^verbatim>\<open>new(big.Int).SetBytes\<close>: the big-endian unsigned value of a byte string.\<close>

definition SetBytes :: "bytes \<Rightarrow> nat" where
  "SetBytes bs = foldl (\<lambda>acc b. 256 * acc + unat b) 0 bs"

text \<open>
  \<^verbatim>\<open>strconv.Atoi\<close>: an optional sign, then one or more decimal digits, and a value that
  fits Go's 64-bit \<^verbatim>\<open>int\<close>; anything else is an error (\<open>None\<close>).
\<close>

definition digitOf :: "char \<Rightarrow> nat option" where
  "digitOf c =
     (let n = (of_char c :: nat) in if 48 \<le> n \<and> n \<le> 57 then Some (n - 48) else None)"

fun digitsVal :: "nat \<Rightarrow> string \<Rightarrow> nat option" where
  "digitsVal acc [] = Some acc"
| "digitsVal acc (c # cs) =
     (case digitOf c of None \<Rightarrow> None | Some d \<Rightarrow> digitsVal (10 * acc + d) cs)"

definition Atoi :: "string \<Rightarrow> int option" where
  "Atoi s =
     (case s of
        [] \<Rightarrow> None
      | c # cs \<Rightarrow>
          (let neg = (c = CHR ''-'');
               ds = (if c = CHR ''-'' \<or> c = CHR ''+'' then cs else s)
           in if ds = [] then None
              else (case digitsVal 0 ds of
                      None \<Rightarrow> None
                    | Some n \<Rightarrow>
                        (let v = (if neg then - int n else int n)
                         in if - (2 ^ 63) \<le> v \<and> v < 2 ^ 63 then Some v else None))))"

section \<open>External collaborators\<close>

text \<open>
  The pat-go library, its constants and the hash are outside the repository; both
  services take them as parameters. \<open>RateLimitedTokenType\<close> and
  \<open>BasicPublicTokenType\<close> are the library's two \<^verbatim>\<open>uint16\<close> token-type tags.
\<close>

record Lib =
  RateLimitedTokenType :: "16 word"
  BasicPublicTokenType :: "16 word"
  sha384 :: "bytes \<Rightarrow> bytes"

section \<open>Attester\<close>

subsection \<open>State and collaborators\<close>

text \<open>
  \<^verbatim>\<open>ClientState\<close> (attester.go, lines 38-42). Go's 64-bit \<^verbatim>\<open>int\<close> count is modelled as
  an unbounded integer: it starts at 0 or 1 and grows by one per request, so it would take
  \<open>2 ^ 63\<close> requests of one client to wrap it.
\<close>

record ClientState =
  originIndices :: "string \<rightharpoonup> string"
  originCounts :: "string \<rightharpoonup> int"

type_synonym clientStates = "string \<rightharpoonup> ClientState"

text \<open>The request built by \<^verbatim>\<open>http.NewRequest\<close> for the Issuer (lines 99-105).\<close>

record ForwardRequest =
  FwdMethod :: string
  FwdURL :: string
  FwdHeader :: "(string \<times> string) list"
  FwdBody :: bytes

text \<open>The Issuer's HTTP response: its headers and the result of reading its body.\<close>

record IssuerResponse =
  RespHeader :: "string \<rightharpoonup> string"
  RespBody :: "string + bytes"

text \<open>\<^verbatim>\<open>pat.RateLimitedTokenRequest\<close>, the fields the handler reads.\<close>

record RateLimitedTokenRequest =
  RequestKey :: bytes
  NameKeyID :: bytes
  EncryptedTokenRequest :: bytes
  Signature :: bytes

text \<open>
  Everything the Attester calls and does not define in attester.go:
  \<^item> \<open>tokenRequestMediaType\<close>, \<open>tokenResponseMediaType\<close>, \<open>tokenRequestURI\<close>,
    \<open>composeURL\<close>, \<open>unmarshalStructuredBinary\<close>: declared in other files of the package;
  \<^item> \<open>NewRequestErr\<close>: the error of \<^verbatim>\<open>http.NewRequest\<close> for a target URI, if any;
  \<^item> \<open>Unmarshal\<close>, \<open>FinalizeIndex\<close>: pat-go;
  \<^item> \<open>UnmarshalCompressed\<close> (\<open>None\<close> for the nil coordinates it returns on a bad
    encoding) and \<open>Verify\<close> (\<^verbatim>\<open>ecdsa.Verify\<close>; \<open>None\<close> when the call panics);
  \<^item> \<open>Do\<close>: the one round trip to the Issuer, an error text or its response.
  An error is the text of \<^verbatim>\<open>err.Error()\<close>, on the left of a sum.
\<close>

record AttesterEnv = Lib +
  tokenRequestMediaType :: string
  tokenResponseMediaType :: string
  tokenRequestURI :: string
  composeURL :: "string \<Rightarrow> string \<Rightarrow> string + string"
  NewRequestErr :: "string \<Rightarrow> string option"
  unmarshalStructuredBinary :: "string \<Rightarrow> string + bytes"
  Unmarshal :: "bytes \<Rightarrow> RateLimitedTokenRequest option"
  UnmarshalCompressed :: "bytes \<Rightarrow> (nat \<times> nat) option"
  Verify :: "(nat \<times> nat) option \<Rightarrow> bytes \<Rightarrow> nat \<Rightarrow> nat \<Rightarrow> bool option"
  Do :: "ForwardRequest \<Rightarrow> string + IssuerResponse"
  FinalizeIndex :: "bytes \<Rightarrow> bytes \<Rightarrow> bytes \<Rightarrow> string + bytes"

definition headerTokenOrigin :: string where "headerTokenOrigin = ''sec-token-origin''"
definition headerClientKey :: string where "headerClientKey = ''sec-token-client''"
definition headerRequestBlind :: string where "headerRequestBlind = ''sec-token-request-blind''"
definition headerClientID :: string where "headerClientID = ''sec-client-id''"
definition headerTokenLimit :: string where "headerTokenLimit = ''sec-token-limit''"

subsection \<open>parseStructuredBinaryHeader (lines 49-55)\<close>

definition parseStructuredBinaryHeader ::
  "AttesterEnv \<Rightarrow> Request \<Rightarrow> string \<Rightarrow> string + bytes" where
  "parseStructuredBinaryHeader env req header =
     (if Get (Header req) header = [] then Inl (''Header '' @ header @ '' missing'')
      else unmarshalStructuredBinary env (Get (Header req) header))"

subsection \<open>handleAttestationRequest (lines 57-303)\<close>

text \<open>
  Lines 148-173: the request key, the two halves of the signature, the message
  \<open>tag || RequestKey || NameKeyID || uint16 length || EncryptedTokenRequest\<close>, its SHA-384
  digest and \<^verbatim>\<open>ecdsa.Verify\<close>. \<open>None\<close> is a panic: the slice expression
  \<^verbatim>\<open>Signature[:scalarLen]\<close> on a signature shorter than \<open>scalarLen = (384 + 7) / 8\<close>
  (a decoded slice is taken to have no spare capacity), \<^verbatim>\<open>BytesOrPanic\<close> after a length
  prefix that does not fit 16 bits, or a panic inside Verify.
\<close>

definition scalarLen :: nat where
  "scalarLen = (384 + 7) div 8"

definition signedMessage :: "AttesterEnv \<Rightarrow> RateLimitedTokenRequest \<Rightarrow> bytes" where
  "signedMessage env tokenRequest =
     putUint16 (RateLimitedTokenType env) @ RequestKey tokenRequest @ NameKeyID tokenRequest
       @ putUint16 (of_nat (length (EncryptedTokenRequest tokenRequest)))
       @ EncryptedTokenRequest tokenRequest"

definition requestSignatureValid :: "AttesterEnv \<Rightarrow> RateLimitedTokenRequest \<Rightarrow> bool option" where
  "requestSignatureValid env tokenRequest =
     (let requestKey = UnmarshalCompressed env (RequestKey tokenRequest)
      in if length (Signature tokenRequest) < scalarLen then None
         else
           (let r = SetBytes (take scalarLen (Signature tokenRequest));
                s = SetBytes (drop scalarLen (Signature tokenRequest))
            in if 65535 < length (EncryptedTokenRequest tokenRequest) then None
               else
                 (let message = signedMessage env tokenRequest;
                      digest = sha384 env message
                  in Verify env requestKey digest r s)))"

text \<open>
  The values the state update of lines 231-278 reads, as the lines before it leave them.
  \<open>err\<close> is the local variable \<^verbatim>\<open>err\<close> of the rate-limited branch.
\<close>

record Admission =
  clientID :: string
  anonOriginEnc :: string
  indexEnc :: string
  tokenLimit :: int
  blindSignature :: bytes
  err :: "string option"

text \<open>Lines 195-231: what the Attester requires of the Issuer's response.\<close>

definition checkIssuerResponse ::
  "AttesterEnv \<Rightarrow> IssuerResponse \<Rightarrow> string \<Rightarrow> bytes \<Rightarrow> bytes \<Rightarrow> bytes \<Rightarrow> Response + Admission" where
  "checkIssuerResponse env resp cid anonOrigin clientKey requestBlind =
     (if Get (RespHeader resp) headerTokenLimit = []
      then Inl (HttpError [] (''Response missing '' @ headerTokenLimit @ '' header'') 400)
      else
        (case Atoi (Get (RespHeader resp) headerTokenLimit) of
           None \<Rightarrow> Inl (HttpError [] (''Invalid '' @ headerTokenLimit @ '' header'') 400)
         | Some limit \<Rightarrow>
        (case RespBody resp of
           Inl e \<Rightarrow> Inl (HttpError [] e 400)
         | Inr sig \<Rightarrow>
        (case unmarshalStructuredBinary env (Get (RespHeader resp) headerTokenOrigin) of
           Inl e \<Rightarrow> Inl (HttpError [] (''Invalid '' @ headerTokenOrigin @ '' header'') 400)
         | Inr blindedRequestKey \<Rightarrow>
        (case FinalizeIndex env clientKey requestBlind blindedRequestKey of
           Inl e \<Rightarrow> Inl (HttpError [] ''Index computation failed'' 400)
         | Inr index \<Rightarrow>
             Inr \<lparr>clientID = cid, anonOriginEnc = EncodeToString anonOrigin,
                  indexEnc = EncodeToString index, tokenLimit = limit,
                  blindSignature = sig, err = None\<rparr>)))))"

text \<open>
  Lines 109-192: decoding, the structured headers, the client id, the signature and the
  forward. The result carries the requests handed to \<^verbatim>\<open>a.client.Do\<close>. The second
  \<^verbatim>\<open>Unmarshal\<close> of line 142 reads the same bytes as the first; were it to fail, line 144
  would call \<^verbatim>\<open>err.Error()\<close> on a nil error.
\<close>

definition rateLimitedChecks ::
  "AttesterEnv \<Rightarrow> Request \<Rightarrow> bytes \<Rightarrow> ForwardRequest \<Rightarrow> (Response + Admission) \<times> ForwardRequest list" where
  "rateLimitedChecks env req requestBody tokenReq =
     (case Unmarshal env requestBody of
        None \<Rightarrow> (Inl (HttpError [] ''Failed parsing client TokenRequest'' 400), [])
      | Some rateLimitedTokenRequest \<Rightarrow>
     (case parseStructuredBinaryHeader env req headerTokenOrigin of
        Inl e \<Rightarrow> (Inl (HttpError [] e 400), [])
      | Inr anonOrigin \<Rightarrow>
     (case parseStructuredBinaryHeader env req headerClientKey of
        Inl e \<Rightarrow> (Inl (HttpError [] e 400), [])
      | Inr clientKey \<Rightarrow>
     (case parseStructuredBinaryHeader env req headerRequestBlind of
        Inl e \<Rightarrow> (Inl (HttpError [] e 400), [])
      | Inr requestBlind \<Rightarrow>
     (let cid = (if Get (Header req) headerClientID = [] then ''default''
                 else Get (Header req) headerClientID)
      in
     (case Unmarshal env requestBody of
        None \<Rightarrow> (Inl Panicked, [])
      | Some tokenRequest \<Rightarrow>
     (case requestSignatureValid env tokenRequest of
        None \<Rightarrow> (Inl Panicked, [])
      | Some valid \<Rightarrow>
          if \<not> valid then (Inl (HttpError [] ''Request signature failed to verify'' 400), [])
          else
            (case Do env tokenReq of
               Inl e \<Rightarrow> (Inl (HttpError [] e 400), [tokenReq])
             | Inr resp \<Rightarrow>
                 (checkIssuerResponse env resp cid anonOrigin clientKey requestBlind,
                  [tokenReq])))))))))"

text \<open>
  Lines 232-278: the per-client state update and the answer. A Go map is a reference, so
  the writes through the copy \<^verbatim>\<open>state\<close> are writes to the entry of \<^verbatim>\<open>a.clientState\<close>;
  reading a missing key of \<^verbatim>\<open>originCounts\<close> gives 0.
\<close>

definition count :: "(string \<rightharpoonup> int) \<Rightarrow> string \<Rightarrow> int" where
  "count m k = (case m k of None \<Rightarrow> 0 | Some c \<Rightarrow> c)"

definition updateClientState ::
  "AttesterEnv \<Rightarrow> clientStates \<Rightarrow> Admission \<Rightarrow> clientStates \<times> Response" where
  "updateClientState env clientState a =
     (let signed = Written [(''content-type'', tokenResponseMediaType env)] (blindSignature a)
      in case clientState (clientID a) of
           None \<Rightarrow>
             (clientState(clientID a \<mapsto>
                \<lparr>originIndices = [anonOriginEnc a \<mapsto> indexEnc a],
                 originCounts = [anonOriginEnc a \<mapsto> 1]\<rparr>),
              signed)
         | Some state \<Rightarrow>
             (case originIndices state (anonOriginEnc a) of
                None \<Rightarrow>
                  (clientState(clientID a \<mapsto>
                     state\<lparr>originIndices := (originIndices state)(anonOriginEnc a \<mapsto> indexEnc a),
                           originCounts := (originCounts state)(anonOriginEnc a \<mapsto> 1)\<rparr>),
                   signed)
              | Some oldIndexEnc \<Rightarrow>
                  if oldIndexEnc \<noteq> indexEnc a then
                    (if err a \<noteq> None
                     then (clientState, HttpError [] ''Invalid mapping, aborting'' 400)
                     else (clientState, signed))
                  else
                    (let n = count (originCounts state) (indexEnc a) + 1;
                         clientState' = clientState(clientID a \<mapsto>
                           state\<lparr>originCounts := (originCounts state)(indexEnc a \<mapsto> n)\<rparr>)
                     in if n \<ge> tokenLimit a
                        then (clientState', HttpError [] ''Limit exceeded'' 429)
                        else (clientState', signed))))"

text \<open>
  Lines 61-105: the checks every request passes first, and the request built for the
  Issuer. The result is the error answered, or \<^verbatim>\<open>requestBody\<close> and \<^verbatim>\<open>tokenReq\<close>.
\<close>

definition prepareForward :: "AttesterEnv \<Rightarrow> Request \<Rightarrow> Response + bytes \<times> ForwardRequest" where
  "prepareForward env req =
     (if Method req \<noteq> ''POST'' then Inl (HttpError [] ''Invalid method'' 400)
      else if Get (Header req) ''Content-Type'' \<noteq> tokenRequestMediaType env
      then Inl (HttpError [] ''Invalid Content-Type'' 400)
      else if Get (Query req) ''issuer'' = []
      then Inl (HttpError [] (StatusText 400) 400)
      else
        (case Body req of
           Inl e \<Rightarrow> Inl (HttpError [] e 400)
         | Inr requestBody \<Rightarrow>
        (case composeURL env (Get (Query req) ''issuer'') (tokenRequestURI env) of
           Inl e \<Rightarrow> Inl (HttpError [] e 400)
         | Inr targetURI \<Rightarrow>
        (case NewRequestErr env targetURI of
           Some e \<Rightarrow> Inl (HttpError [] e 400)
         | None \<Rightarrow>
             Inr (requestBody,
                  \<lparr>FwdMethod = ''POST'', FwdURL = targetURI,
                   FwdHeader = [(''Content-Type'', tokenRequestMediaType env)],
                   FwdBody = requestBody\<rparr>)))))"

text \<open>Lines 280-301: the Basic branch, one round trip and the body read from it.\<close>

definition basicExchange :: "AttesterEnv \<Rightarrow> ForwardRequest \<Rightarrow> Response" where
  "basicExchange env tokenReq =
     (case Do env tokenReq of
        Inl e \<Rightarrow> HttpError [] e 400
      | Inr resp \<Rightarrow>
          (case RespBody resp of
             Inl e \<Rightarrow> HttpError [] e 400
           | Inr sig \<Rightarrow> Written [(''content-type'', tokenResponseMediaType env)] sig))"

text \<open>
  The handler: the new state, the response and the requests sent to the Issuer.
  Line 107 reads the tag; lines 108, 279 and 302 dispatch on it.
\<close>

definition handleAttestationRequest ::
  "AttesterEnv \<Rightarrow> clientStates \<Rightarrow> Request \<Rightarrow> clientStates \<times> Response \<times> ForwardRequest list" where
  "handleAttestationRequest env clientState req =
     (case prepareForward env req of
        Inl resp \<Rightarrow> (clientState, resp, [])
      | Inr (requestBody, tokenReq) \<Rightarrow>
          (case Uint16 requestBody of
             None \<Rightarrow> (clientState, Panicked, [])
           | Some tokenType \<Rightarrow>
               if tokenType = RateLimitedTokenType env then
                 (case rateLimitedChecks env req requestBody tokenReq of
                    (Inl resp, sent) \<Rightarrow> (clientState, resp, sent)
                  | (Inr a, sent) \<Rightarrow>
                      (case updateClientState env clientState a of
                         (clientState', resp) \<Rightarrow> (clientState', resp, sent)))
               else if tokenType = BasicPublicTokenType env then
                 (clientState, basicExchange env tokenReq, [tokenReq])
               else (clientState, NoWrite, [])))"

text \<open>
  Requests served one after another, each with the collaborators as they behave when it
  is served: the final state, the responses and the requests sent to the Issuer, in order.
\<close>

fun serve ::
  "clientStates \<Rightarrow> (AttesterEnv \<times> Request) list \<Rightarrow> clientStates \<times> Response list \<times> ForwardRequest list" where
  "serve clientState [] = (clientState, [], [])"
| "serve clientState ((env, req) # rest) =
     (case handleAttestationRequest env clientState req of
        (clientState', resp, sent) \<Rightarrow>
          (case serve clientState' rest of
             (clientState'', resps, sent') \<Rightarrow> (clientState'', resp # resps, sent @ sent')))"

section \<open>Origin\<close>

subsection \<open>State and collaborators\<close>

definition challengeNonceLength :: nat where
  "challengeNonceLength = 32"

definition authorizationAttributeChallenge :: string where
  "authorizationAttributeChallenge = ''challenge''"
definition authorizationAttributeMaxAge :: string where
  "authorizationAttributeMaxAge = ''max-age''"
definition authorizationAttributeTokenKey :: string where
  "authorizationAttributeTokenKey = ''token-key''"
definition authorizationAttributeNameKey :: string where
  "authorizationAttributeNameKey = ''issuer-encap-key''"

definition headerTokenAttributeNoninteractive :: string where
  "headerTokenAttributeNoninteractive = ''Sec-Token-Attribute-Non-Interactive''"
definition headerTokenAttributeCrossOrigin :: string where
  "headerTokenAttributeCrossOrigin = ''Sec-Token-Attribute-Cross-Origin''"
definition headerTokenAttributeChallengeCount :: string where
  "headerTokenAttributeChallengeCount = ''Sec-Token-Attribute-Count''"
definition headerTokenType :: string where
  "headerTokenType = ''Sec-CH-Token-Type''"

definition privateTokenType :: string where
  "privateTokenType = ''PrivateToken''"

definition testResource :: string where
  "testResource = ''https://tfpauly.github.io/privacy-proxy/draft-privacypass-rate-limit-tokens.html''"

text \<open>\<^verbatim>\<open>pat.TokenChallenge\<close>, as built on lines 99-104.\<close>

record TokenChallenge =
  TokenType :: "16 word"
  IssuerName :: string
  OriginInfo :: "string list"
  RedemptionNonce :: bytes

text \<open>
  \<^verbatim>\<open>pat.Token\<close>, what the handler reads of it: the context, the result of
  \<^verbatim>\<open>AuthenticatorInput()\<close> and the authenticator.
\<close>

record Token =
  Context :: bytes
  AuthenticatorInput :: bytes
  Authenticator :: bytes

text \<open>
  A \<^verbatim>\<open>*rsa.PublicKey\<close>: modulus and exponent, or \<open>None\<close> for the nil pointer that
  \<^verbatim>\<open>startOrigin\<close> leaves when the Issuer's configuration has no key of a type.
\<close>

type_synonym rsaKey = "(nat \<times> int) option"

text \<open>
  \<^verbatim>\<open>Origin\<close> (origin.go, lines 47-60). \<open>issuerEncapKey\<close> is the key by its
  \<^verbatim>\<open>Marshal()\<close> encoding. The map \<open>challenges\<close> is the only field the handlers write;
  \<^verbatim>\<open>challengeLock\<close> has no counterpart in a sequential model.
\<close>

record Origin =
  issuerName :: string
  originName :: string
  additionalOriginInfo :: "string list"
  rateLimitedTokenKeyEnc :: bytes
  rateLimitedTokenKey :: rsaKey
  basicTokenKeyEnc :: bytes
  basicValidationKey :: rsaKey
  issuerEncapKey :: bytes
  challenges :: "string \<rightharpoonup> TokenChallenge list"

text \<open>
  What the Origin calls and does not define:
  \<^item> \<open>sha256\<close>, and \<open>sha384\<close> of \<open>Lib\<close>;
  \<^item> \<open>base64Encode\<close>, \<open>base64Decode\<close>: \<^verbatim>\<open>base64.URLEncoding\<close>, decoding with \<open>None\<close> for
    an error;
  \<^item> \<open>Marshal\<close>: \<^verbatim>\<open>TokenChallenge.Marshal\<close>; \<open>UnmarshalToken\<close>: \<^verbatim>\<open>pat.UnmarshalToken\<close>,
    \<open>None\<close> for an error;
  \<^item> \<open>VerifyPSS\<close>: \<^verbatim>\<open>rsa.VerifyPSS\<close> with SHA-384 and its salt length: \<open>Some True\<close> for a
    nil error, \<open>Some False\<close> for an error, \<open>None\<close> when the call panics;
  \<^item> \<open>fetch\<close>: the GET of lines 215-236, the first error's text or the body read.
\<close>

record OriginEnv = Lib +
  sha256 :: "bytes \<Rightarrow> bytes"
  base64Encode :: "bytes \<Rightarrow> string"
  base64Decode :: "string \<Rightarrow> bytes option"
  Marshal :: "TokenChallenge \<Rightarrow> bytes"
  UnmarshalToken :: "bytes \<Rightarrow> Token option"
  VerifyPSS :: "rsaKey \<Rightarrow> bytes \<Rightarrow> bytes \<Rightarrow> bool option"
  fetch :: "string \<Rightarrow> string + bytes"

subsection \<open>CreateChallenge (lines 62-122)\<close>

text \<open>
  Lines 63-64: a buffer of \<open>challengeNonceLength\<close> zero bytes, overwritten from its start
  with the bytes \<open>random\<close> that \<^verbatim>\<open>rand.Reader.Read\<close> delivers (at most the buffer's length).
\<close>

definition newNonce :: "bytes \<Rightarrow> bytes" where
  "newNonce random =
     take challengeNonceLength random @ replicate (challengeNonceLength - length random) 0"

text \<open>Lines 65-68: the origin name, then each additional name appended in turn.\<close>

definition defaultOriginInfo :: "Origin \<Rightarrow> string list" where
  "defaultOriginInfo org =
     foldl (\<lambda>originInfo name. originInfo @ [name]) [originName org] (additionalOriginInfo org)"

text \<open>The conditions of lines 70 and 74.\<close>

definition nonInteractive :: "Request \<Rightarrow> bool" where
  "nonInteractive req =
     (Get (Header req) headerTokenAttributeNoninteractive \<noteq> [] \<or>
      Get (Query req) ''noninteractive'' \<noteq> [])"

definition crossOrigin :: "Request \<Rightarrow> bool" where
  "crossOrigin req =
     (Get (Header req) headerTokenAttributeCrossOrigin \<noteq> [] \<or>
      Get (Query req) ''crossorigin'' \<noteq> [])"

text \<open>Lines 79-97: the token type and the key advertised with it.\<close>

definition tokenTypeAndKey :: "OriginEnv \<Rightarrow> Origin \<Rightarrow> Request \<Rightarrow> 16 word \<times> string" where
  "tokenTypeAndKey env org req =
     (let rateLimited = (RateLimitedTokenType env, base64Encode env (rateLimitedTokenKeyEnc org));
          basic = (BasicPublicTokenType env, base64Encode env (basicTokenKeyEnc org))
      in if Get (Header req) headerTokenType \<noteq> [] \<or> Get (Query req) ''type'' \<noteq> [] then
           (case Atoi (Get (Header req) headerTokenType) of
              Some tokenTypeValue \<Rightarrow>
                if tokenTypeValue = uint (BasicPublicTokenType env) then basic else rateLimited
            | None \<Rightarrow>
                (case Atoi (Get (Query req) ''type'') of
                   Some tokenTypeValue \<Rightarrow>
                     if tokenTypeValue = uint (BasicPublicTokenType env) then basic
                     else rateLimited
                 | None \<Rightarrow> rateLimited))
         else rateLimited)"

text \<open>Lines 63-104: the challenge issued for a request and the random bytes read.\<close>

definition newChallenge :: "OriginEnv \<Rightarrow> Origin \<Rightarrow> Request \<Rightarrow> bytes \<Rightarrow> TokenChallenge" where
  "newChallenge env org req random =
     (let nonce = newNonce random;
          originInfo = defaultOriginInfo org;
          nonce = (if nonInteractive req then [] else nonce);
          originInfo = (if crossOrigin req then [] else originInfo)
      in \<lparr>TokenType = fst (tokenTypeAndKey env org req), IssuerName = issuerName org,
          OriginInfo = originInfo, RedemptionNonce = nonce\<rparr>)"

text \<open>Lines 107-109: the hex encoding of the SHA-256 of the serialized challenge.\<close>

definition contextOf :: "OriginEnv \<Rightarrow> TokenChallenge \<Rightarrow> string" where
  "contextOf env challenge = EncodeToString (sha256 env (Marshal env challenge))"

text \<open>
  Lines 114-118 on the map: the entry is created empty when absent, then the challenge is
  appended to it.
\<close>

definition enqueue ::
  "(string \<rightharpoonup> TokenChallenge list) \<Rightarrow> string \<Rightarrow> TokenChallenge \<Rightarrow> (string \<rightharpoonup> TokenChallenge list)" where
  "enqueue m contextEnc challenge =
     (let m1 = (case m contextEnc of None \<Rightarrow> m(contextEnc \<mapsto> []) | Some q \<Rightarrow> m)
      in m1(contextEnc \<mapsto> (case m1 contextEnc of None \<Rightarrow> [] | Some q \<Rightarrow> q) @ [challenge]))"

text \<open>
  The Origin with the challenge queued, the base64 of the serialized challenge and the
  token key.
\<close>

definition CreateChallenge ::
  "OriginEnv \<Rightarrow> Origin \<Rightarrow> Request \<Rightarrow> bytes \<Rightarrow> Origin \<times> string \<times> string" where
  "CreateChallenge env org req random =
     (let challenge = newChallenge env org req random;
          tokenKey = snd (tokenTypeAndKey env org req);
          challengeEnc = Marshal env challenge;
          contextEnc = EncodeToString (sha256 env challengeEnc)
      in (org\<lparr>challenges := enqueue (challenges org) contextEnc challenge\<rparr>,
          base64Encode env challengeEnc, tokenKey))"

subsection \<open>handleRequest (lines 124-239)\<close>

text \<open>Lines 132-139: the number of challenges, 1 unless the header asks for 1 to 9.\<close>

definition challengeCount :: "Request \<Rightarrow> nat" where
  "challengeCount req =
     (let countReq = Get (Header req) headerTokenAttributeChallengeCount
      in if countReq \<noteq> [] then
           (case Atoi countReq of
              Some countVal \<Rightarrow> if countVal > 0 \<and> countVal < 10 then nat countVal else 1
            | None \<Rightarrow> 1)
         else 1)"

text \<open>
  Lines 141-148: the loop, with its index \<open>i\<close> and the number of iterations left;
  \<open>random i\<close> are the bytes read for the \<open>i\<close>-th challenge.
\<close>

fun challengeLoop ::
  "OriginEnv \<Rightarrow> Request \<Rightarrow> (nat \<Rightarrow> bytes) \<Rightarrow> nat \<Rightarrow> nat \<Rightarrow> Origin \<Rightarrow> string \<Rightarrow> Origin \<times> string" where
  "challengeLoop env req random i 0 org challengeList = (org, challengeList)"
| "challengeLoop env req random i (Suc n) org challengeList =
     (case CreateChallenge env org req (random i) of
        (org', challengeEnc, tokenKeyEnc) \<Rightarrow>
          (let challengeString = authorizationAttributeChallenge @ ''='' @ challengeEnc;
               issuerKeyString = authorizationAttributeTokenKey @ ''='' @ tokenKeyEnc;
               maxAgeString = authorizationAttributeMaxAge @ ''='' @ ''10'';
               issuerEncapKeyString =
                 authorizationAttributeNameKey @ ''='' @ base64Encode env (issuerEncapKey org)
           in challengeLoop env req random (Suc i) n org'
                (challengeList @ privateTokenType @ '' '' @ challengeString @ '', ''
                   @ issuerKeyString @ '','' @ issuerEncapKeyString @ '', '' @ maxAgeString)))"

text \<open>
  Lines 155-176. \<open>cutAfter sep s\<close> is \<open>s\<close> up to and including the first \<open>sep\<close> in it, all
  of \<open>s\<close> when there is none: the element 1 of \<^verbatim>\<open>strings.SplitAfter\<close> is \<open>cutAfter\<close> of
  what follows the prefix. A header without the prefix, a value that is not base64 and
  bytes that are no token give \<open>None\<close>; each is answered with 400.
\<close>

definition tokenPrefix :: string where
  "tokenPrefix = privateTokenType @ '' '' @ ''token=''"

definition HasPrefix :: "string \<Rightarrow> string \<Rightarrow> bool" where
  "HasPrefix s pre = (take (length pre) s = pre)"

fun cutAfter :: "string \<Rightarrow> string \<Rightarrow> string" where
  "cutAfter sep [] = []"
| "cutAfter sep (c # cs) = (if HasPrefix (c # cs) sep then sep else c # cutAfter sep cs)"

definition decodeCredential :: "OriginEnv \<Rightarrow> string \<Rightarrow> Token option" where
  "decodeCredential env authValue =
     (if \<not> HasPrefix authValue tokenPrefix then None
      else
        (let tokenValueEnc = cutAfter tokenPrefix (drop (length tokenPrefix) authValue)
         in case base64Decode env tokenValueEnc of
              None \<Rightarrow> None
            | Some tokenValue \<Rightarrow> UnmarshalToken env tokenValue))"

text \<open>
  Lines 186-192 on the map, for a queue \<open>challenge # rest\<close> found under the context: the
  queue loses its first element, and the entry is deleted when nothing is left.
\<close>

definition dequeue ::
  "(string \<rightharpoonup> TokenChallenge list) \<Rightarrow> string \<Rightarrow> TokenChallenge list \<Rightarrow> (string \<rightharpoonup> TokenChallenge list)" where
  "dequeue m tokenContextEnc rest =
     (let m1 = m(tokenContextEnc \<mapsto> rest)
      in if length rest = 0 then m1(tokenContextEnc := None) else m1)"

text \<open>Lines 195-198: the key that verifies a token matched to a challenge.\<close>

definition validationKey :: "OriginEnv \<Rightarrow> Origin \<Rightarrow> TokenChallenge \<Rightarrow> rsaKey" where
  "validationKey env org challenge =
     (if TokenType challenge = BasicPublicTokenType env then basicValidationKey org
      else rateLimitedTokenKey org)"

text \<open>
  Lines 178-238: the redemption of a decoded token. Indexing an empty queue on line 186
  would panic; the write of lines 187-192 comes before the verification, so every later
  outcome carries the popped map.
\<close>

definition redeem :: "OriginEnv \<Rightarrow> Origin \<Rightarrow> Token \<Rightarrow> Origin \<times> Response" where
  "redeem env org token =
     (let tokenContextEnc = EncodeToString (Context token)
      in case challenges org tokenContextEnc of
           None \<Rightarrow> (org, HttpError [] (StatusText 400) 400)
         | Some challengeList \<Rightarrow>
             (case challengeList of
                [] \<Rightarrow> (org, Panicked)
              | challenge # rest \<Rightarrow>
                  (let org' = org\<lparr>challenges := dequeue (challenges org) tokenContextEnc rest\<rparr>;
                       authInput = AuthenticatorInput token;
                       key = validationKey env org challenge;
                       digest = sha384 env authInput
                   in case VerifyPSS env key digest (Authenticator token) of
                        None \<Rightarrow> (org', Panicked)
                      | Some valid \<Rightarrow>
                          if \<not> valid then (org', HttpError [] (StatusText 400) 400)
                          else
                            (case fetch env testResource of
                               Inl e \<Rightarrow> (org', HttpError [] e 500)
                             | Inr body \<Rightarrow> (org', Written [] body)))))"

text \<open>The handler: the Origin after the request and the response.\<close>

definition handleRequest ::
  "OriginEnv \<Rightarrow> Origin \<Rightarrow> Request \<Rightarrow> (nat \<Rightarrow> bytes) \<Rightarrow> Origin \<times> Response" where
  "handleRequest env org req random =
     (if Get (Header req) ''Authorization'' = [] then
        (case challengeLoop env req random 0 (challengeCount req) org [] of
           (org', challengeList) \<Rightarrow>
             (org', HttpError [(''WWW-Authenticate'', challengeList)] (StatusText 401) 401))
      else
        (case decodeCredential env (Get (Header req) ''Authorization'') of
           None \<Rightarrow> (org, HttpError [] (StatusText 400) 400)
         | Some token \<Rightarrow> redeem env org token))"

subsection \<open>Predicates on requests\<close>

text \<open>
  A Basic request: it passes lines 61-105 and its tag is the Basic tag. The two tags of
  the library are different values.
\<close>

definition basicRequest :: "AttesterEnv \<Rightarrow> Request \<Rightarrow> bool" where
  "basicRequest env req =
     (case prepareForward env req of
        Inl resp \<Rightarrow> False
      | Inr (requestBody, tokenReq) \<Rightarrow>
          Uint16 requestBody = Some (BasicPublicTokenType env) \<and>
          BasicPublicTokenType env \<noteq> RateLimitedTokenType env)"

text \<open>
  The values with which a rate-limited request reaches the state update of line 232,
  when it passes every check before it.
\<close>

definition admission :: "AttesterEnv \<Rightarrow> Request \<Rightarrow> Admission option" where
  "admission env req =
     (case prepareForward env req of
        Inl resp \<Rightarrow> None
      | Inr (requestBody, tokenReq) \<Rightarrow>
          if Uint16 requestBody = Some (RateLimitedTokenType env)
          then (case fst (rateLimitedChecks env req requestBody tokenReq) of
                  Inl resp \<Rightarrow> None
                | Inr a \<Rightarrow> Some a)
          else None)"

definition admittedAs ::
  "AttesterEnv \<Rightarrow> Request \<Rightarrow> string \<Rightarrow> string \<Rightarrow> string \<Rightarrow> int \<Rightarrow> bool" where
  "admittedAs env req cid origin index limit =
     (case admission env req of
        None \<Rightarrow> False
      | Some a \<Rightarrow> clientID a = cid \<and> anonOriginEnc a = origin \<and> indexEnc a = index \<and>
                  tokenLimit a = limit)"

text \<open>
  A (client, origin) pair the state has not recorded, with nothing counted yet under the
  key \<open>index\<close> of that client's \<open>originCounts\<close>.
\<close>

definition unseenPair :: "clientStates \<Rightarrow> string \<Rightarrow> string \<Rightarrow> string \<Rightarrow> bool" where
  "unseenPair clientState cid origin index =
     (case clientState cid of
        None \<Rightarrow> True
      | Some state \<Rightarrow> originIndices state origin = None \<and> count (originCounts state) index = 0)"

subsection \<open>A concrete Issuer and concrete requests\<close>

text \<open>
  Collaborators to run the handler on: the Issuer advertises the limit \<open>limit\<close> and signs
  by echoing the request body; a structured header decodes to one byte, its length; the
  index is the decoded request blind; a body decodes when it has a third byte \<open>k\<close>, which
  becomes the request key, with a signature of 96 bytes 1. The key \<open>[0]\<close> is no curve
  point. \<open>Verify\<close> does what \<^verbatim>\<open>ecdsa.Verify\<close> does with the coordinates: it returns false
  for a zero \<open>r\<close> or \<open>s\<close> before it reads them, and panics on nil coordinates
  otherwise; of the points, the one with \<open>x = 1\<close> verifies.
\<close>

definition exampleEnv :: "string \<Rightarrow> AttesterEnv" where
  "exampleEnv limit =
     \<lparr>RateLimitedTokenType = 3, BasicPublicTokenType = 2, sha384 = (\<lambda>m. m),
      tokenRequestMediaType = ''message/token-request'',
      tokenResponseMediaType = ''message/token-response'',
      tokenRequestURI = ''/token-request'',
      composeURL = (\<lambda>host path. Inr (host @ path)),
      NewRequestErr = (\<lambda>uri. None),
      unmarshalStructuredBinary = (\<lambda>v. Inr [of_nat (length v)]),
      Unmarshal = (\<lambda>b. case b of
                      t0 # t1 # k # rest \<Rightarrow>
                        Some \<lparr>RequestKey = [k], NameKeyID = [], EncryptedTokenRequest = rest,
                              Signature = replicate 96 1\<rparr>
                    | _ \<Rightarrow> None),
      UnmarshalCompressed = (\<lambda>k. if k = [0] then None else Some (unat (hd k), 0)),
      Verify = (\<lambda>key digest r s.
                  if r = 0 \<or> s = 0 then Some False
                  else (case key of None \<Rightarrow> None | Some (x, y) \<Rightarrow> Some (x = 1))),
      Do = (\<lambda>tokenReq.
              Inr \<lparr>RespHeader = [''sec-token-limit'' \<mapsto> limit, ''sec-token-origin'' \<mapsto> ''k''],
                   RespBody = Inr (FwdBody tokenReq)\<rparr>),
      FinalizeIndex = (\<lambda>clientKey requestBlind blindedRequestKey. Inr requestBlind)\<rparr>"

definition exampleRequest :: "bytes \<Rightarrow> string \<Rightarrow> string \<Rightarrow> Request" where
  "exampleRequest body origin blind =
     \<lparr>Method = ''POST'',
      Header = [''Content-Type'' \<mapsto> ''message/token-request'', ''sec-token-origin'' \<mapsto> origin,
                ''sec-token-client'' \<mapsto> ''c'', ''sec-token-request-blind'' \<mapsto> blind],
      Query = [''issuer'' \<mapsto> ''issuer.example''],
      Body = Inr body\<rparr>"

definition exampleForward :: "bytes \<Rightarrow> ForwardRequest" where
  "exampleForward body =
     \<lparr>FwdMethod = ''POST'', FwdURL = ''issuer.example/token-request'',
      FwdHeader = [(''Content-Type'', ''message/token-request'')], FwdBody = body\<rparr>"

definition signedReply :: "bytes \<Rightarrow> Response" where
  "signedReply body = Written [(''content-type'', ''message/token-response'')] body"

text \<open>The state in which the client \<open>default\<close> has one origin recorded.\<close>

definition recorded :: "string \<Rightarrow> string \<Rightarrow> int \<Rightarrow> clientStates" where
  "recorded origin index n =
     [''default'' \<mapsto> \<lparr>originIndices = [origin \<mapsto> index], originCounts = [origin \<mapsto> n]\<rparr>]"

subsection \<open>The invariant of the challenge map\<close>

text \<open>Every context present in the map holds a queue that is not empty.\<close>

definition queuesNonEmpty :: "Origin \<Rightarrow> bool" where
  "queuesNonEmpty org = (\<forall>contextEnc q. challenges org contextEnc = Some q \<longrightarrow> q \<noteq> [])"

subsection \<open>A concrete Origin and concrete requests\<close>

text \<open>
  Collaborators to run the Origin on. A challenge serializes to two bytes, the lengths of
  its origin-info list and of its nonce; the hashes are the identity; \<open>AQA=\<close> and \<open>AAA=\<close>
  are the base64 of the bytes \<open>01 00\<close> and \<open>00 00\<close>, the only credentials that decode; a
  token is its context; a signature verifies under the key with modulus 1 and under no
  other; the resource is the single byte 42.
\<close>

definition exampleOriginEnv :: OriginEnv where
  "exampleOriginEnv =
     \<lparr>RateLimitedTokenType = 3, BasicPublicTokenType = 2, sha384 = (\<lambda>m. m),
      sha256 = (\<lambda>m. m),
      base64Encode = EncodeToString,
      base64Decode = (\<lambda>s. if s = ''AQA='' then Some [1, 0]
                          else if s = ''AAA='' then Some [0, 0] else None),
      Marshal = (\<lambda>c. [of_nat (length (OriginInfo c)), of_nat (length (RedemptionNonce c))]),
      UnmarshalToken = (\<lambda>v. Some \<lparr>Context = v, AuthenticatorInput = v, Authenticator = v\<rparr>),
      VerifyPSS = (\<lambda>key digest sig. case key of None \<Rightarrow> None | Some (n, e) \<Rightarrow> Some (n = 1)),
      fetch = (\<lambda>url. Inr [42])\<rparr>"

definition exampleOrigin :: "(string \<rightharpoonup> TokenChallenge list) \<Rightarrow> Origin" where
  "exampleOrigin m =
     \<lparr>issuerName = ''issuer.example'', originName = ''origin.example'',
      additionalOriginInfo = [],
      rateLimitedTokenKeyEnc = [1], rateLimitedTokenKey = Some (1, 65537),
      basicTokenKeyEnc = [2], basicValidationKey = Some (2, 65537),
      issuerEncapKey = [3], challenges = m\<rparr>"

text \<open>
  The challenge issued to a non-interactive request (\<open>exampleChallenge 3\<close>, or
  \<open>exampleChallenge 2\<close> when it asks for the Basic type); it serializes to \<open>01 00\<close>.
\<close>

definition exampleChallenge :: "16 word \<Rightarrow> TokenChallenge" where
  "exampleChallenge t =
     \<lparr>TokenType = t, IssuerName = ''issuer.example'', OriginInfo = [''origin.example''],
      RedemptionNonce = []\<rparr>"

text \<open>A request for two non-interactive challenges, and the presentation of a credential.\<close>

definition challengeRequest :: Request where
  "challengeRequest =
     \<lparr>Method = ''GET'',
      Header = [headerTokenAttributeChallengeCount \<mapsto> ''2'',
                headerTokenAttributeNoninteractive \<mapsto> ''1''],
      Query = Map.empty, Body = Inr []\<rparr>"

definition redeemRequest :: "string \<Rightarrow> Request" where
  "redeemRequest credential =
     \<lparr>Method = ''GET'',
      Header = [''Authorization'' \<mapsto> ''PrivateToken token='' @ credential],
      Query = Map.empty, Body = Inr []\<rparr>"

definition exampleToken :: "bytes \<Rightarrow> Token" where
  "exampleToken v = \<lparr>Context = v, AuthenticatorInput = v, Authenticator = v\<rparr>"

definition plainRequest :: Request where
  "plainRequest = \<lparr>Method = ''GET'', Header = Map.empty, Query = Map.empty, Body = Inr []\<rparr>"

definition crossOriginRequest :: Request where
  "crossOriginRequest =
     \<lparr>Method = ''GET'', Header = Map.empty, Query = [''crossorigin'' \<mapsto> ''1''], Body = Inr []\<rparr>"

section \<open>Properties of the Attester\<close>

subsection \<open>The checks before the dispatch\<close>

lemma prepareForward_Inr_iff:
  "prepareForward env req = Inr (requestBody, tokenReq) \<longleftrightarrow>
     Method req = ''POST'' \<and>
     Get (Header req) ''Content-Type'' = tokenRequestMediaType env \<and>
     Get (Query req) ''issuer'' \<noteq> [] \<and>
     Body req = Inr requestBody \<and>
     (\<exists>targetURI. composeURL env (Get (Query req) ''issuer'') (tokenRequestURI env) = Inr targetURI \<and>
        NewRequestErr env targetURI = None \<and>
        tokenReq = \<lparr>FwdMethod = ''POST'', FwdURL = targetURI,
                     FwdHeader = [(''Content-Type'', tokenRequestMediaType env)],
                     FwdBody = requestBody\<rparr>)"
  by (auto simp: prepareForward_def split: sum.splits option.splits)

lemma prepareForward_Inl_400:
  "prepareForward env req = Inl resp \<Longrightarrow> statusCode resp = Some 400"
  by (auto simp: prepareForward_def split: sum.splits option.splits if_splits)

subsection \<open>The handler on the concrete Issuer\<close>

lemma exampleEnv_sel:
  "RateLimitedTokenType (exampleEnv l) = 3"
  "BasicPublicTokenType (exampleEnv l) = 2"
  "sha384 (exampleEnv l) = (\<lambda>m. m)"
  "tokenRequestMediaType (exampleEnv l) = ''message/token-request''"
  "tokenResponseMediaType (exampleEnv l) = ''message/token-response''"
  "tokenRequestURI (exampleEnv l) = ''/token-request''"
  "composeURL (exampleEnv l) = (\<lambda>host path. Inr (host @ path))"
  "NewRequestErr (exampleEnv l) = (\<lambda>uri. None)"
  "unmarshalStructuredBinary (exampleEnv l) = (\<lambda>v. Inr [of_nat (length v)])"
  "Unmarshal (exampleEnv l) =
     (\<lambda>b. case b of
            t0 # t1 # k # rest \<Rightarrow>
              Some \<lparr>RequestKey = [k], NameKeyID = [], EncryptedTokenRequest = rest,
                    Signature = replicate 96 1\<rparr>
          | _ \<Rightarrow> None)"
  "UnmarshalCompressed (exampleEnv l) = (\<lambda>k. if k = [0] then None else Some (unat (hd k), 0))"
  "Verify (exampleEnv l) =
     (\<lambda>key digest r s.
        if r = 0 \<or> s = 0 then Some False
        else (case key of None \<Rightarrow> None | Some (x, y) \<Rightarrow> Some (x = 1)))"
  "Do (exampleEnv l) =
     (\<lambda>tokenReq.
        Inr \<lparr>RespHeader = [''sec-token-limit'' \<mapsto> l, ''sec-token-origin'' \<mapsto> ''k''],
             RespBody = Inr (FwdBody tokenReq)\<rparr>)"
  "FinalizeIndex (exampleEnv l) = (\<lambda>clientKey requestBlind blindedRequestKey. Inr requestBlind)"
  by (simp_all add: exampleEnv_def)

lemma exampleRequest_sel:
  "Method (exampleRequest body origin blind) = ''POST''"
  "Get (Header (exampleRequest body origin blind)) ''Content-Type'' = ''message/token-request''"
  "Get (Header (exampleRequest body origin blind)) headerTokenOrigin = origin"
  "Get (Header (exampleRequest body origin blind)) headerClientKey = ''c''"
  "Get (Header (exampleRequest body origin blind)) headerRequestBlind = blind"
  "Get (Header (exampleRequest body origin blind)) headerClientID = []"
  "Get (Query (exampleRequest body origin blind)) ''issuer'' = ''issuer.example''"
  "Body (exampleRequest body origin blind) = Inr body"
  by (simp_all add: exampleRequest_def Get_def headerTokenOrigin_def headerClientKey_def
        headerRequestBlind_def headerClientID_def)

lemma prepareForward_example:
  "prepareForward (exampleEnv l) (exampleRequest body origin blind) = Inr (body, exampleForward body)"
  by (simp add: prepareForward_def exampleEnv_sel exampleRequest_sel exampleForward_def)

lemma Uint16_example:
  "Uint16 (0 # 3 # rest) = Some 3" "Uint16 (0 # 2 # rest) = Some 2" "Uint16 (0 # 7 # rest) = Some 7"
  by (simp_all add: Uint16_def)

lemma foldl_SetBytes_eq_0_iff:
  "foldl (\<lambda>acc b. 256 * acc + unat b) acc bs = 0 \<longleftrightarrow> acc = 0 \<and> (\<forall>b \<in> set bs. b = 0)"
  for bs :: bytes
  by (induction bs arbitrary: acc) (auto simp: unat_eq_0)

lemma SetBytes_eq_0_iff: "SetBytes bs = 0 \<longleftrightarrow> (\<forall>b \<in> set bs. b = 0)"
  by (simp add: SetBytes_def foldl_SetBytes_eq_0_iff)

lemma requestSignatureValid_example:
  "requestSignatureValid (exampleEnv l)
     \<lparr>RequestKey = [k], NameKeyID = [], EncryptedTokenRequest = [], Signature = replicate 96 1\<rparr>
   = (if k = 0 then None else Some (unat k = 1))"
  by (simp add: requestSignatureValid_def exampleEnv_sel scalarLen_def SetBytes_eq_0_iff)

lemma EncodeToString_example:
  "EncodeToString [1] = ''01''" "EncodeToString [2] = ''02''" "EncodeToString [3] = ''03''"
  by (simp_all add: EncodeToString_def hexDigit_def)

lemma Atoi_example: "Atoi ''2'' = Some 2" "Atoi ''0'' = Some 0" "Atoi ''3'' = Some 3"
  by (simp_all add: Atoi_def digitOf_def)

lemma checkIssuerResponse_example:
  assumes "Atoi l = Some limit" "l \<noteq> []"
  shows "checkIssuerResponse (exampleEnv l) 
      \<lparr>RespHeader = [''sec-token-limit'' \<mapsto> l, ''sec-token-origin'' \<mapsto> ''k''], RespBody = Inr body\<rparr>
      cid anonOrigin clientKey requestBlind =
      Inr \<lparr>clientID = cid, anonOriginEnc = EncodeToString anonOrigin,
                  indexEnc = EncodeToString requestBlind, tokenLimit = limit,
                  blindSignature = body, err = None\<rparr>"
  using assms by (simp add: checkIssuerResponse_def exampleEnv_sel Get_def headerTokenLimit_def headerTokenOrigin_def)

lemma rateLimitedChecks_example:
  assumes "Atoi l = Some limit" "l \<noteq> []" "origin \<noteq> []" "blind \<noteq> []"
  shows "rateLimitedChecks (exampleEnv l) (exampleRequest [0, 3, 1] origin blind) [0, 3, 1] (exampleForward [0, 3, 1]) =
     (Inr \<lparr>clientID = ''default'', anonOriginEnc = EncodeToString [of_nat (length origin)],
                  indexEnc = EncodeToString [of_nat (length blind)], tokenLimit = limit,
                  blindSignature = [0, 3, 1], err = None\<rparr>, [exampleForward [0, 3, 1]])"
  using assms
  by (simp add: rateLimitedChecks_def parseStructuredBinaryHeader_def exampleEnv_sel exampleRequest_sel
        requestSignatureValid_example[unfolded exampleEnv_sel] checkIssuerResponse_example[unfolded exampleEnv_sel]
    exampleForward_def)


subsection \<open>Unknown token types\<close>

text \<open>
  Claim C10. A request that passes the method, content-type, issuer-parameter and
  body-read checks (the issuer parameter is present and gives a target URI and a
  forwarding request, lines 74-104), and whose first two body bytes are a tag that is
  neither the Rate-Limited nor the Basic one, falls through both branches of lines 108 and
  279: the handler writes nothing, so the client receives status 200 with an empty body;
  nothing is sent to the Issuer and the per-client state is unchanged.
\<close>

theorem unknown_token_type_empty_200:
  assumes "Method req = ''POST''"
    and "Get (Header req) ''Content-Type'' = tokenRequestMediaType env"
    and "Get (Query req) ''issuer'' \<noteq> []"
    and "Body req = Inr requestBody"
    and "composeURL env (Get (Query req) ''issuer'') (tokenRequestURI env) = Inr targetURI"
    and "NewRequestErr env targetURI = None"
    and "Uint16 requestBody = Some tokenType"
    and "tokenType \<noteq> RateLimitedTokenType env"
    and "tokenType \<noteq> BasicPublicTokenType env"
  shows "handleAttestationRequest env clientState req = (clientState, NoWrite, [])
         \<and> statusCode NoWrite = Some 200 \<and> responseBody NoWrite = Some []"
  using assms by (simp add: handleAttestationRequest_def prepareForward_def)

theorem unknown_token_type_empty_200_witness:
  "handleAttestationRequest (exampleEnv ''2'') (recorded ''01'' ''02'' 1)
       (exampleRequest [0, 7] ''o'' ''b'') =
     (recorded ''01'' ''02'' 1, NoWrite, [])"
  using unknown_token_type_empty_200
    [where env = "exampleEnv ''2''" and req = "exampleRequest [0, 7] ''o'' ''b''"
       and requestBody = "[0, 7]" and targetURI = "''issuer.example/token-request''"
       and tokenType = 7 and clientState = "recorded ''01'' ''02'' 1"]
  by (simp add: exampleEnv_sel exampleRequest_sel Uint16_example)

subsection \<open>Decoding and signature failures\<close>

lemma rateLimitedChecks_decode_fail:
  "Unmarshal env requestBody = None \<Longrightarrow>
   rateLimitedChecks env req requestBody tokenReq =
     (Inl (HttpError [] ''Failed parsing client TokenRequest'' 400), [])"
  by (simp add: rateLimitedChecks_def)

lemma rateLimitedChecks_bad_signature:
  assumes "Unmarshal env requestBody = Some tokenRequest"
    and "requestSignatureValid env tokenRequest = Some False"
  shows "\<exists>msg. rateLimitedChecks env req requestBody tokenReq = (Inl (HttpError [] msg 400), [])"
  using assms by (simp add: rateLimitedChecks_def Let_def split: sum.splits)

text \<open>
  A rate-limited request (its body was read and starts with the Rate-Limited tag) whose
  body does not decode into the request structure, or for whose signature
  \<^verbatim>\<open>ecdsa.Verify\<close> returns false, is answered with status 400; nothing is sent to the
  Issuer, and the state is unchanged.
\<close>

theorem undecodable_or_unsigned_rejected_unforwarded:
  assumes "Body req = Inr requestBody"
    and "Uint16 requestBody = Some (RateLimitedTokenType env)"
    and "Unmarshal env requestBody = None \<or>
         (\<exists>tokenRequest. Unmarshal env requestBody = Some tokenRequest \<and>
            requestSignatureValid env tokenRequest = Some False)"
  shows "case handleAttestationRequest env clientState req of
           (clientState', resp, sent) \<Rightarrow>
             statusCode resp = Some 400 \<and> sent = [] \<and> clientState' = clientState"
proof (cases "prepareForward env req")
  case (Inl resp)
  then show ?thesis
    by (simp add: handleAttestationRequest_def prepareForward_Inl_400)
next
  case (Inr p)
  obtain b tokenReq where p: "p = (b, tokenReq)" by (cases p)
  with Inr have pf: "prepareForward env req = Inr (b, tokenReq)" by simp
  then have b: "b = requestBody"
    using assms(1) by (simp add: prepareForward_Inr_iff)
  from assms(3) obtain msg where
    "rateLimitedChecks env req requestBody tokenReq = (Inl (HttpError [] msg 400), [])"
    using rateLimitedChecks_decode_fail rateLimitedChecks_bad_signature by blast
  then show ?thesis
    using pf b assms(2) by (simp add: handleAttestationRequest_def)
qed

theorem undecodable_or_unsigned_rejected_unforwarded_witness:
  "Unmarshal (exampleEnv ''2'') [0, 3] = None \<and>
   statusCode (fst (snd (handleAttestationRequest (exampleEnv ''2'') Map.empty
                           (exampleRequest [0, 3] ''o'' ''bb'')))) = Some 400 \<and>
   snd (snd (handleAttestationRequest (exampleEnv ''2'') Map.empty
               (exampleRequest [0, 3] ''o'' ''bb''))) = [] \<and>
   Unmarshal (exampleEnv ''2'') [0, 3, 2] =
     Some \<lparr>RequestKey = [2], NameKeyID = [], EncryptedTokenRequest = [],
           Signature = replicate 96 1\<rparr> \<and>
   requestSignatureValid (exampleEnv ''2'')
     \<lparr>RequestKey = [2], NameKeyID = [], EncryptedTokenRequest = [],
      Signature = replicate 96 1\<rparr> = Some False \<and>
   statusCode (fst (snd (handleAttestationRequest (exampleEnv ''2'') Map.empty
                           (exampleRequest [0, 3, 2] ''o'' ''bb'')))) = Some 400 \<and>
   snd (snd (handleAttestationRequest (exampleEnv ''2'') Map.empty
               (exampleRequest [0, 3, 2] ''o'' ''bb''))) = []"
proof -
  let ?env = "exampleEnv ''2''"
  have d1: "Unmarshal ?env [0, 3] = None"
    by (simp add: exampleEnv_sel)
  have d2: "Unmarshal ?env [0, 3, 2] =
              Some \<lparr>RequestKey = [2], NameKeyID = [], EncryptedTokenRequest = [],
                    Signature = replicate 96 1\<rparr>"
    by (simp add: exampleEnv_sel)
  have v2: "requestSignatureValid ?env
              \<lparr>RequestKey = [2], NameKeyID = [], EncryptedTokenRequest = [],
               Signature = replicate 96 1\<rparr> = Some False"
    by (simp add: requestSignatureValid_example)
  have t1: "Uint16 [0, 3] = Some (RateLimitedTokenType ?env)"
    and t2: "Uint16 [0, 3, 2] = Some (RateLimitedTokenType ?env)"
    by (simp_all add: Uint16_example exampleEnv_sel)
  have b1: "Body (exampleRequest [0, 3] ''o'' ''bb'') = Inr [0, 3]"
    and b2: "Body (exampleRequest [0, 3, 2] ''o'' ''bb'') = Inr [0, 3, 2]"
    by (simp_all add: exampleRequest_sel)
  from undecodable_or_unsigned_rejected_unforwarded
         [where clientState = Map.empty, OF b1 t1 disjI1, OF d1]
       undecodable_or_unsigned_rejected_unforwarded
         [where clientState = Map.empty, OF b2 t2 disjI2, OF exI, OF conjI, OF d2 v2]
       d1 d2 v2
  show ?thesis
    by (simp split: prod.splits)
qed

lemma rateLimitedChecks_not_valid:
  assumes "Unmarshal env requestBody = Some tokenRequest"
    and "requestSignatureValid env tokenRequest \<noteq> Some True"
  shows "\<exists>resp. rateLimitedChecks env req requestBody tokenReq = (Inl resp, []) \<and>
           (resp = Panicked \<or> statusCode resp = Some 400)"
proof (cases "requestSignatureValid env tokenRequest")
  case None
  with assms(1) show ?thesis
    by (simp add: rateLimitedChecks_def Let_def split: sum.splits)
next
  case (Some valid)
  with assms(2) have "requestSignatureValid env tokenRequest = Some False" by simp
  from rateLimitedChecks_bad_signature[OF assms(1) this] show ?thesis by fastforce
qed

text \<open>
  Whatever the outcome of the checks, a rate-limited request that does not decode, or
  whose signature check does not return true (it returns false, or it panics), is never
  sent to the Issuer and leaves the state unchanged; it is answered with status 400 or
  the handler panics.
\<close>

theorem unverified_request_never_forwarded:
  assumes "Body req = Inr requestBody"
    and "Uint16 requestBody = Some (RateLimitedTokenType env)"
    and "Unmarshal env requestBody = None \<or>
         (\<exists>tokenRequest. Unmarshal env requestBody = Some tokenRequest \<and>
            requestSignatureValid env tokenRequest \<noteq> Some True)"
  shows "case handleAttestationRequest env clientState req of
           (clientState', resp, sent) \<Rightarrow>
             sent = [] \<and> clientState' = clientState \<and>
             (resp = Panicked \<or> statusCode resp = Some 400)"
proof (cases "prepareForward env req")
  case (Inl resp)
  then show ?thesis
    by (simp add: handleAttestationRequest_def prepareForward_Inl_400)
next
  case (Inr p)
  obtain b tokenReq where p: "p = (b, tokenReq)" by (cases p)
  with Inr have pf: "prepareForward env req = Inr (b, tokenReq)" by simp
  then have b: "b = requestBody"
    using assms(1) by (simp add: prepareForward_Inr_iff)
  from assms(3) obtain resp where
    "rateLimitedChecks env req requestBody tokenReq = (Inl resp, [])"
    "resp = Panicked \<or> statusCode resp = Some 400"
    using rateLimitedChecks_decode_fail[of env requestBody req tokenReq]
          rateLimitedChecks_not_valid[of env requestBody _ req tokenReq]
    by fastforce
  then show ?thesis
    using pf b assms(2) by (auto simp: handleAttestationRequest_def)
qed

text \<open>
  The panic of line 173. Lines 150-153 build the public key from whatever
  \<^verbatim>\<open>elliptic.UnmarshalCompressed\<close> returns, nil coordinates included; with them
  \<^verbatim>\<open>ecdsa.Verify\<close> panics, and the handler ends without an answer.
\<close>

lemma requestSignatureValid_nil_key:
  assumes "UnmarshalCompressed env (RequestKey tokenRequest) = None"
    and "scalarLen \<le> length (Signature tokenRequest)"
    and "length (EncryptedTokenRequest tokenRequest) \<le> 65535"
    and "Verify env None (sha384 env (signedMessage env tokenRequest))
           (SetBytes (take scalarLen (Signature tokenRequest)))
           (SetBytes (drop scalarLen (Signature tokenRequest))) = None"
  shows "requestSignatureValid env tokenRequest = None"
  using assms by (simp add: requestSignatureValid_def Let_def)

lemma handle_signature_panic:
  assumes "prepareForward env req = Inr (requestBody, tokenReq)"
    and "Uint16 requestBody = Some (RateLimitedTokenType env)"
    and "Unmarshal env requestBody = Some tokenRequest"
    and "parseStructuredBinaryHeader env req headerTokenOrigin = Inr anonOrigin"
    and "parseStructuredBinaryHeader env req headerClientKey = Inr clientKey"
    and "parseStructuredBinaryHeader env req headerRequestBlind = Inr requestBlind"
    and "requestSignatureValid env tokenRequest = None"
  shows "handleAttestationRequest env clientState req = (clientState, Panicked, [])"
  using assms by (simp add: handleAttestationRequest_def rateLimitedChecks_def Let_def)

lemma parseStructuredBinaryHeader_example:
  assumes "origin \<noteq> []" "blind \<noteq> []"
  shows "parseStructuredBinaryHeader (exampleEnv l) (exampleRequest body origin blind)
           headerTokenOrigin = Inr [of_nat (length origin)]"
    and "parseStructuredBinaryHeader (exampleEnv l) (exampleRequest body origin blind)
           headerClientKey = Inr [1]"
    and "parseStructuredBinaryHeader (exampleEnv l) (exampleRequest body origin blind)
           headerRequestBlind = Inr [of_nat (length blind)]"
  using assms
  by (simp_all add: parseStructuredBinaryHeader_def exampleEnv_sel exampleRequest_sel)

theorem unverified_request_never_forwarded_witness:
  "requestSignatureValid (exampleEnv ''2'')
     \<lparr>RequestKey = [0], NameKeyID = [], EncryptedTokenRequest = [],
      Signature = replicate 96 1\<rparr> = None \<and>
   snd (snd (handleAttestationRequest (exampleEnv ''2'') (recorded ''01'' ''02'' 1)
               (exampleRequest [0, 3, 0] ''o'' ''bb''))) = [] \<and>
   fst (handleAttestationRequest (exampleEnv ''2'') (recorded ''01'' ''02'' 1)
          (exampleRequest [0, 3, 0] ''o'' ''bb'')) = recorded ''01'' ''02'' 1"
proof -
  let ?env = "exampleEnv ''2''"
  let ?tr = "\<lparr>RequestKey = [0], NameKeyID = [], EncryptedTokenRequest = [],
             Signature = replicate 96 1\<rparr>"
  have d: "Unmarshal ?env [0, 3, 0] = Some ?tr"
    by (simp add: exampleEnv_sel)
  have v: "requestSignatureValid ?env ?tr = None"
    by (simp add: requestSignatureValid_example)
  then have nv: "requestSignatureValid ?env ?tr \<noteq> Some True"
    by simp
  have t: "Uint16 [0, 3, 0] = Some (RateLimitedTokenType ?env)"
    by (simp add: Uint16_example exampleEnv_sel)
  have b: "Body (exampleRequest [0, 3, 0] ''o'' ''bb'') = Inr [0, 3, 0]"
    by (simp add: exampleRequest_sel)
  from unverified_request_never_forwarded
         [where clientState = "recorded ''01'' ''02'' 1", OF b t disjI2, OF exI, OF conjI, OF d nv]
       v
  show ?thesis
    by (simp split: prod.splits)
qed

text \<open>
  Claim C3 (the code does not do this). A rate-limited request that decodes, with its
  headers in order, a signature whose halves are not zero and a request key that is no
  point of the curve: its signature does not verify, and the claim requires status 400.
  The handler panics on line 173 and answers nothing; no status 400 is written. The
  request is not sent to the Issuer.
\<close>

theorem request_key_off_curve_panics:
  "UnmarshalCompressed (exampleEnv ''2'') [0] = None \<and>
   handleAttestationRequest (exampleEnv ''2'') Map.empty (exampleRequest [0, 3, 0] ''o'' ''bb'') =
     (Map.empty, Panicked, []) \<and>
   statusCode Panicked = None"
proof -
  let ?env = "exampleEnv ''2''"
  have "handleAttestationRequest ?env Map.empty (exampleRequest [0, 3, 0] ''o'' ''bb'') =
          (Map.empty, Panicked, [])"
  proof (rule handle_signature_panic)
    show "prepareForward ?env (exampleRequest [0, 3, 0] ''o'' ''bb'') =
            Inr ([0, 3, 0], exampleForward [0, 3, 0])"
      by (rule prepareForward_example)
    show "Uint16 [0, 3, 0] = Some (RateLimitedTokenType ?env)"
      by (simp add: Uint16_example exampleEnv_sel)
    show "Unmarshal ?env [0, 3, 0] =
            Some \<lparr>RequestKey = [0], NameKeyID = [], EncryptedTokenRequest = [],
                  Signature = replicate 96 1\<rparr>"
      by (simp add: exampleEnv_sel)
    show "parseStructuredBinaryHeader ?env (exampleRequest [0, 3, 0] ''o'' ''bb'')
            headerTokenOrigin = Inr [of_nat (length ''o'')]"
      by (rule parseStructuredBinaryHeader_example) simp_all
    show "parseStructuredBinaryHeader ?env (exampleRequest [0, 3, 0] ''o'' ''bb'')
            headerClientKey = Inr [1]"
      by (rule parseStructuredBinaryHeader_example[where origin = "''o''" and blind = "''bb''"])
         simp_all
    show "parseStructuredBinaryHeader ?env (exampleRequest [0, 3, 0] ''o'' ''bb'')
            headerRequestBlind = Inr [of_nat (length ''bb'')]"
      by (rule parseStructuredBinaryHeader_example) simp_all
    show "requestSignatureValid ?env
            \<lparr>RequestKey = [0], NameKeyID = [], EncryptedTokenRequest = [],
             Signature = replicate 96 1\<rparr> = None"
      by (simp add: requestSignatureValid_example)
  qed
  then show ?thesis
    by (simp add: exampleEnv_sel)
qed

subsection \<open>Basic requests\<close>

lemma basicExchange_verbatim:
  "Do env tokenReq = Inr resp \<Longrightarrow> RespBody resp = Inr sig \<Longrightarrow>
   basicExchange env tokenReq = Written [(''content-type'', tokenResponseMediaType env)] sig"
  by (simp add: basicExchange_def)

lemma basicRequest_step:
  assumes "basicRequest env req"
  shows "\<exists>tokenReq. prepareForward env req = Inr (FwdBody tokenReq, tokenReq) \<and>
           Body req = Inr (FwdBody tokenReq) \<and>
           handleAttestationRequest env clientState req =
             (clientState, basicExchange env tokenReq, [tokenReq])"
proof -
  from assms obtain b tokenReq where pf: "prepareForward env req = Inr (b, tokenReq)"
    and tag: "Uint16 b = Some (BasicPublicTokenType env)"
    and ne: "BasicPublicTokenType env \<noteq> RateLimitedTokenType env"
    by (auto simp: basicRequest_def split: sum.splits)
  from pf have "Body req = Inr b" and "FwdBody tokenReq = b"
    by (auto simp: prepareForward_Inr_iff)
  with pf tag ne show ?thesis
    by (auto simp: handleAttestationRequest_def)
qed

lemma serve_basic:
  assumes "\<forall>(env, req) \<in> set rs. basicRequest env req"
  shows "\<exists>resps sent. serve clientState rs = (clientState, resps, sent) \<and>
           length sent = length rs \<and> length resps = length rs \<and>
           (\<forall>i < length rs.
              prepareForward (fst (rs ! i)) (snd (rs ! i)) = Inr (FwdBody (sent ! i), sent ! i) \<and>
              Body (snd (rs ! i)) = Inr (FwdBody (sent ! i)) \<and>
              resps ! i = basicExchange (fst (rs ! i)) (sent ! i))"
  using assms
proof (induction rs)
  case Nil
  then show ?case by simp
next
  case (Cons p rs)
  obtain env req where p: "p = (env, req)" by (cases p)
  from Cons.prems p have "basicRequest env req" by simp
  then obtain tokenReq where pf: "prepareForward env req = Inr (FwdBody tokenReq, tokenReq)"
    and body: "Body req = Inr (FwdBody tokenReq)"
    and step: "handleAttestationRequest env clientState req =
                 (clientState, basicExchange env tokenReq, [tokenReq])"
    using basicRequest_step by blast
  from Cons.IH Cons.prems obtain resps sent
    where rest: "serve clientState rs = (clientState, resps, sent)"
      and len: "length sent = length rs" "length resps = length rs"
      and ith: "\<And>i. i < length rs \<Longrightarrow>
              prepareForward (fst (rs ! i)) (snd (rs ! i)) = Inr (FwdBody (sent ! i), sent ! i) \<and>
              Body (snd (rs ! i)) = Inr (FwdBody (sent ! i)) \<and>
              resps ! i = basicExchange (fst (rs ! i)) (sent ! i)"
    by auto
  have all: "serve clientState (p # rs) =
               (clientState, basicExchange env tokenReq # resps, tokenReq # sent)"
    using p step rest by simp
  have "prepareForward (fst ((p # rs) ! i)) (snd ((p # rs) ! i)) =
          Inr (FwdBody ((tokenReq # sent) ! i), (tokenReq # sent) ! i) \<and>
        Body (snd ((p # rs) ! i)) = Inr (FwdBody ((tokenReq # sent) ! i)) \<and>
        (basicExchange env tokenReq # resps) ! i =
          basicExchange (fst ((p # rs) ! i)) ((tokenReq # sent) ! i)"
    if "i < length (p # rs)" for i
  proof (cases i)
    case 0
    then show ?thesis using p pf body by simp
  next
    case (Suc j)
    with that have "j < length rs" by simp
    from ith[OF this] Suc show ?thesis by simp
  qed
  with all len show ?case by simp
qed

text \<open>
  Claim C6. For Basic requests the Attester is a pure proxy. Served one after another from
  any state, \<open>N\<close> Basic requests leave the per-client state as it was (so an empty state
  stays empty) and send exactly \<open>N\<close> requests to the Issuer; the \<open>i\<close>-th of them is the
  request built for the \<open>i\<close>-th client request and carries its body; the \<open>i\<close>-th answer is
  the outcome of that one exchange, and when the Issuer answers and its body can be read,
  that body is returned as it is.
\<close>

theorem basic_requests_pure_proxy:
  assumes "\<forall>(env, req) \<in> set rs. basicRequest env req"
  shows "case serve clientState rs of
           (clientState', resps, sent) \<Rightarrow>
             clientState' = clientState \<and> length sent = length rs \<and> length resps = length rs \<and>
             (\<forall>i < length rs.
                case rs ! i of
                  (env, req) \<Rightarrow>
                    prepareForward env req = Inr (FwdBody (sent ! i), sent ! i) \<and>
                    Body req = Inr (FwdBody (sent ! i)) \<and>
                    resps ! i = basicExchange env (sent ! i) \<and>
                    (\<forall>resp sig. Do env (sent ! i) = Inr resp \<and> RespBody resp = Inr sig \<longrightarrow>
                       resps ! i = Written [(''content-type'', tokenResponseMediaType env)] sig))"
proof -
  from serve_basic[OF assms, of clientState] obtain resps sent
    where s: "serve clientState rs = (clientState, resps, sent)"
      and len: "length sent = length rs" "length resps = length rs"
      and ith: "\<And>i. i < length rs \<Longrightarrow>
              prepareForward (fst (rs ! i)) (snd (rs ! i)) = Inr (FwdBody (sent ! i), sent ! i) \<and>
              Body (snd (rs ! i)) = Inr (FwdBody (sent ! i)) \<and>
              resps ! i = basicExchange (fst (rs ! i)) (sent ! i)"
    by blast
  have "case rs ! i of
          (env, req) \<Rightarrow>
            prepareForward env req = Inr (FwdBody (sent ! i), sent ! i) \<and>
            Body req = Inr (FwdBody (sent ! i)) \<and>
            resps ! i = basicExchange env (sent ! i) \<and>
            (\<forall>resp sig. Do env (sent ! i) = Inr resp \<and> RespBody resp = Inr sig \<longrightarrow>
               resps ! i = Written [(''content-type'', tokenResponseMediaType env)] sig)"
    if "i < length rs" for i
  proof -
    obtain env req where e: "rs ! i = (env, req)" by (cases "rs ! i")
    from ith[OF that] e show ?thesis by (simp add: basicExchange_verbatim)
  qed
  with s len show ?thesis by simp
qed

theorem basic_requests_pure_proxy_witness:
  "(let rs = [(exampleEnv ''2'', exampleRequest [0, 2] ''o'' ''b''),
              (exampleEnv ''2'', exampleRequest [0, 2, 5] ''o'' ''b'')]
    in basicRequest (exampleEnv ''2'') (exampleRequest [0, 2] ''o'' ''b'') \<and>
       basicRequest (exampleEnv ''2'') (exampleRequest [0, 2, 5] ''o'' ''b'') \<and>
       fst (serve Map.empty rs) = Map.empty \<and>
       length (snd (snd (serve Map.empty rs))) = 2 \<and>
       snd (snd (serve Map.empty rs)) ! 0 = exampleForward [0, 2] \<and>
       snd (snd (serve Map.empty rs)) ! 1 = exampleForward [0, 2, 5] \<and>
       fst (snd (serve Map.empty rs)) ! 0 = signedReply [0, 2] \<and>
       fst (snd (serve Map.empty rs)) ! 1 = signedReply [0, 2, 5])"
proof -
  let ?env = "exampleEnv ''2''"
  let ?rs = "[(?env, exampleRequest [0, 2] ''o'' ''b''), (?env, exampleRequest [0, 2, 5] ''o'' ''b'')]"
  have b: "basicRequest ?env (exampleRequest (0 # 2 # rest) ''o'' ''b'')" for rest
    by (simp add: basicRequest_def prepareForward_example Uint16_example exampleEnv_sel)
  then have h: "\<forall>(env, req) \<in> set ?rs. basicRequest env req"
    by simp
  have x: "basicExchange ?env (exampleForward body) = signedReply body" for body
    by (simp add: basicExchange_def exampleEnv_sel exampleForward_def signedReply_def)
  obtain st resps sent where s: "serve Map.empty ?rs = (st, resps, sent)"
    by (cases "serve Map.empty ?rs")
  from basic_requests_pure_proxy[OF h, of Map.empty]
  have st: "st = Map.empty" and len: "length sent = 2"
    and p0: "prepareForward ?env (exampleRequest [0, 2] ''o'' ''b'') =
               Inr (FwdBody (sent ! 0), sent ! 0)"
    and p1: "prepareForward ?env (exampleRequest [0, 2, 5] ''o'' ''b'') =
               Inr (FwdBody (sent ! Suc 0), sent ! Suc 0)"
    and r0: "resps ! 0 = basicExchange ?env (sent ! 0)"
    and r1: "resps ! Suc 0 = basicExchange ?env (sent ! Suc 0)"
    unfolding s by (simp_all add: All_less_Suc2)
  have same: "d = b" if "f = Inr (a, b)" "f = Inr (c, d)"
    for f :: "Response + bytes \<times> ForwardRequest" and a b c d
    using that by simp
  have s0: "sent ! 0 = exampleForward [0, 2]" and s1: "sent ! Suc 0 = exampleForward [0, 2, 5]"
    by (rule same[OF prepareForward_example p0], rule same[OF prepareForward_example p1])
  from st len b r0 r1 show ?thesis
    by (simp add: s s0 s1 x Let_def del: serve.simps)
qed

subsection \<open>The per-client state update\<close>

lemma checkIssuerResponse_err:
  "checkIssuerResponse env resp cid anonOrigin clientKey requestBlind = Inr a \<Longrightarrow> err a = None"
  by (auto simp: checkIssuerResponse_def split: if_splits option.splits sum.splits)

lemma rateLimitedChecks_err:
  "rateLimitedChecks env req requestBody tokenReq = (Inr a, sent) \<Longrightarrow> err a = None"
  by (auto simp: rateLimitedChecks_def Let_def checkIssuerResponse_err
           split: if_splits option.splits sum.splits)

lemma rateLimitedChecks_sent:
  "rateLimitedChecks env req requestBody tokenReq = (Inr a, sent) \<Longrightarrow> sent = [tokenReq]"
  by (auto simp: rateLimitedChecks_def Let_def split: if_splits option.splits sum.splits)

lemma admission_err:
  assumes "admission env req = Some a"
  shows "err a = None"
proof -
  from assms obtain requestBody tokenReq
    where "fst (rateLimitedChecks env req requestBody tokenReq) = Inr a"
    by (auto simp: admission_def split: sum.splits if_splits)
  then have "rateLimitedChecks env req requestBody tokenReq =
               (Inr a, snd (rateLimitedChecks env req requestBody tokenReq))"
    by (metis prod.collapse)
  then show ?thesis by (rule rateLimitedChecks_err)
qed

lemma admission_step:
  assumes "admission env req = Some a"
  shows "\<exists>sent. handleAttestationRequest env clientState req =
           (fst (updateClientState env clientState a), snd (updateClientState env clientState a), sent)"
  using assms
  by (auto simp: admission_def handleAttestationRequest_def
           split: sum.splits if_splits prod.splits)

lemma admission_from_issuer:
  assumes "admission env req = Some a"
  shows "\<exists>requestBody tokenReq resp.
           prepareForward env req = Inr (requestBody, tokenReq) \<and>
           Do env tokenReq = Inr resp \<and>
           RespBody resp = Inr (blindSignature a) \<and>
           Atoi (Get (RespHeader resp) headerTokenLimit) = Some (tokenLimit a)"
  using assms
  by (auto simp: admission_def rateLimitedChecks_def checkIssuerResponse_def Let_def
           split: sum.splits if_splits prod.splits option.splits)

lemma admission_example:
  assumes "Atoi l = Some limit" "l \<noteq> []" "origin \<noteq> []" "blind \<noteq> []"
  shows "admission (exampleEnv l) (exampleRequest [0, 3, 1] origin blind) =
           Some \<lparr>clientID = ''default'', anonOriginEnc = EncodeToString [of_nat (length origin)],
                 indexEnc = EncodeToString [of_nat (length blind)], tokenLimit = limit,
                 blindSignature = [0, 3, 1], err = None\<rparr>"
  using assms
  by (simp add: admission_def prepareForward_example Uint16_example exampleEnv_sel
        rateLimitedChecks_example)

lemma handle_example:
  assumes "Atoi l = Some limit" "l \<noteq> []" "origin \<noteq> []" "blind \<noteq> []"
  shows "handleAttestationRequest (exampleEnv l) clientState (exampleRequest [0, 3, 1] origin blind) =
           (case updateClientState (exampleEnv l) clientState
                   \<lparr>clientID = ''default'', anonOriginEnc = EncodeToString [of_nat (length origin)],
                    indexEnc = EncodeToString [of_nat (length blind)], tokenLimit = limit,
                    blindSignature = [0, 3, 1], err = None\<rparr> of
              (clientState', resp) \<Rightarrow> (clientState', resp, [exampleForward [0, 3, 1]]))"
  using assms
  by (simp add: handleAttestationRequest_def prepareForward_example Uint16_example exampleEnv_sel
        rateLimitedChecks_example)

text \<open>
  The branch of lines 258-263, for a pair whose recorded index differs from the derived
  one: \<^verbatim>\<open>err\<close> is nil there (line 224 returned otherwise), so the rejection of
  line 261 is never reached and the signed bytes are written, the state untouched.
\<close>

lemma index_mismatch_general:
  assumes "clientState (clientID a) = Some state"
    and "originIndices state (anonOriginEnc a) = Some oldIndexEnc"
    and "oldIndexEnc \<noteq> indexEnc a"
    and "err a = None"
  shows "updateClientState env clientState a =
           (clientState, Written [(''content-type'', tokenResponseMediaType env)] (blindSignature a))"
  using assms by (simp add: updateClientState_def)

lemma handle_index_mismatch:
  assumes "admission env req = Some a"
    and "clientState (clientID a) = Some state"
    and "originIndices state (anonOriginEnc a) = Some oldIndexEnc"
    and "oldIndexEnc \<noteq> indexEnc a"
  shows "\<exists>sent. handleAttestationRequest env clientState req =
           (clientState,
            Written [(''content-type'', tokenResponseMediaType env)] (blindSignature a), sent)"
  using admission_step[OF assms(1), of clientState]
        index_mismatch_general[where clientState = clientState and a = a and state = state
          and oldIndexEnc = oldIndexEnc and env = env, OF assms(2,3,4) admission_err[OF assms(1)]]
  by simp

theorem handle_index_mismatch_witness:
  "admission (exampleEnv ''2'') (exampleRequest [0, 3, 1] ''o'' ''bbb'') =
     Some \<lparr>clientID = ''default'', anonOriginEnc = ''01'', indexEnc = ''03'', tokenLimit = 2,
           blindSignature = [0, 3, 1], err = None\<rparr> \<and>
   (\<exists>sent. handleAttestationRequest (exampleEnv ''2'') (recorded ''01'' ''02'' 1)
             (exampleRequest [0, 3, 1] ''o'' ''bbb'') =
           (recorded ''01'' ''02'' 1, signedReply [0, 3, 1], sent))"
proof -
  let ?a = "\<lparr>clientID = ''default'', anonOriginEnc = ''01'', indexEnc = ''03'', tokenLimit = 2,
            blindSignature = [0, 3, 1], err = None\<rparr>"
  let ?state = "\<lparr>originIndices = [''01'' \<mapsto> ''02''], originCounts = [''01'' \<mapsto> 1]\<rparr>"
  have adm: "admission (exampleEnv ''2'') (exampleRequest [0, 3, 1] ''o'' ''bbb'') = Some ?a"
    by (simp add: admission_example Atoi_example EncodeToString_example)
  have known: "recorded ''01'' ''02'' 1 (clientID ?a) = Some ?state"
    by (simp add: recorded_def)
  have old: "originIndices ?state (anonOriginEnc ?a) = Some ''02''"
    by simp
  have differs: "''02'' \<noteq> indexEnc ?a"
    by simp
  from handle_index_mismatch
         [where clientState = "recorded ''01'' ''02'' 1" and state = ?state, OF adm known old differs]
       adm
  show ?thesis
    by (simp add: signedReply_def exampleEnv_sel)
qed

text \<open>
  Claim C1 (the code does not do this). A known (client, origin) pair, index \<open>02\<close>
  recorded with count 1, sends a valid rate-limited request whose derived index is \<open>03\<close>:
  the claim requires status 400 and no signed response; the handler answers with the
  Issuer's signed bytes (status 200) and leaves the record as it was.
\<close>

theorem index_mismatch_silently_accepted:
  "handleAttestationRequest (exampleEnv ''2'') (recorded ''01'' ''02'' 1)
       (exampleRequest [0, 3, 1] ''o'' ''bbb'') =
     (recorded ''01'' ''02'' 1, signedReply [0, 3, 1], [exampleForward [0, 3, 1]])"
  by (simp add: handle_example Atoi_example EncodeToString_example updateClientState_def
        recorded_def signedReply_def exampleEnv_sel)

subsection \<open>The quota\<close>

lemma update_first:
  assumes "case clientState (clientID a) of
             None \<Rightarrow> True
           | Some state \<Rightarrow> originIndices state (anonOriginEnc a) = None"
  shows "snd (updateClientState env clientState a) =
           Written [(''content-type'', tokenResponseMediaType env)] (blindSignature a)"
    and "\<exists>state'. fst (updateClientState env clientState a) (clientID a) = Some state' \<and>
           originIndices state' (anonOriginEnc a) = Some (indexEnc a) \<and>
           (\<forall>k. k \<noteq> anonOriginEnc a \<longrightarrow>
              count (originCounts state') k =
                (case clientState (clientID a) of None \<Rightarrow> 0
                 | Some state \<Rightarrow> count (originCounts state) k))"
  using assms
  by (auto simp: updateClientState_def count_def split: option.splits)

lemma update_known:
  assumes "clientState (clientID a) = Some state"
    and "originIndices state (anonOriginEnc a) = Some (indexEnc a)"
  shows "snd (updateClientState env clientState a) =
           (if count (originCounts state) (indexEnc a) + 1 \<ge> tokenLimit a
            then HttpError [] ''Limit exceeded'' 429
            else Written [(''content-type'', tokenResponseMediaType env)] (blindSignature a))"
    and "\<exists>state'. fst (updateClientState env clientState a) (clientID a) = Some state' \<and>
           originIndices state' (anonOriginEnc a) = Some (indexEnc a) \<and>
           count (originCounts state') (indexEnc a) = count (originCounts state) (indexEnc a) + 1"
  using assms
  by (auto simp: updateClientState_def count_def Let_def split: option.splits)

lemma serve_Cons:
  "serve clientState ((env, req) # rest) =
     (fst (serve (fst (handleAttestationRequest env clientState req)) rest),
      fst (snd (handleAttestationRequest env clientState req)) #
        fst (snd (serve (fst (handleAttestationRequest env clientState req)) rest)),
      snd (snd (handleAttestationRequest env clientState req)) @
        snd (snd (serve (fst (handleAttestationRequest env clientState req)) rest)))"
  by (simp split: prod.splits)

lemma serve_known_pair:
  assumes "\<forall>(env, req) \<in> set rs. admittedAs env req cid origin index limit"
    and "clientState cid = Some state"
    and "originIndices state origin = Some index"
    and "count (originCounts state) index = c"
    and "k < length rs"
  shows "\<exists>a. admission (fst (rs ! k)) (snd (rs ! k)) = Some a \<and>
           fst (snd (serve clientState rs)) ! k =
             (if c + int k + 1 \<ge> limit then HttpError [] ''Limit exceeded'' 429
              else Written [(''content-type'', tokenResponseMediaType (fst (rs ! k)))]
                     (blindSignature a))"
  using assms
proof (induction rs arbitrary: clientState state c k)
  case Nil
  then show ?case by simp
next
  case (Cons p rs)
  obtain env req where p: "p = (env, req)" by (cases p)
  from Cons.prems(1) p obtain a where a: "admission env req = Some a"
    and af: "clientID a = cid" "anonOriginEnc a = origin" "indexEnc a = index" "tokenLimit a = limit"
    by (auto simp: admittedAs_def split: option.splits)
  let ?u = "updateClientState env clientState a"
  from admission_step[OF a, of clientState] obtain sent
    where h: "handleAttestationRequest env clientState req = (fst ?u, snd ?u, sent)" by blast
  have known: "clientState (clientID a) = Some state"
    "originIndices state (anonOriginEnc a) = Some (indexEnc a)"
    using Cons.prems(2,3) af by simp_all
  from update_known(1)[where clientState=clientState and a=a and state=state and env=env, OF known] Cons.prems(4) af
  have r0: "snd ?u = (if c + 1 \<ge> limit then HttpError [] ''Limit exceeded'' 429
                      else Written [(''content-type'', tokenResponseMediaType env)] (blindSignature a))"
    by simp
  from update_known(2)[where clientState=clientState and a=a and state=state and env=env, OF known] Cons.prems(4) af obtain state'
    where s': "fst ?u cid = Some state'" "originIndices state' origin = Some index"
      "count (originCounts state') index = c + 1"
    by auto
  show ?case
  proof (cases k)
    case 0
    then show ?thesis using p a h r0 by (simp add: serve_Cons del: serve.simps)
  next
    case (Suc j)
    with Cons.prems(5) have j: "j < length rs" by simp
    from Cons.prems(1) have rest: "\<forall>(env, req) \<in> set rs. admittedAs env req cid origin index limit"
      by simp
    from Cons.IH[where clientState="fst ?u" and state=state' and c="c + 1" and k=j, OF rest s' j] obtain a'
      where "admission (fst (rs ! j)) (snd (rs ! j)) = Some a'"
        and "fst (snd (serve (fst ?u) rs)) ! j =
               (if c + 1 + int j + 1 \<ge> limit then HttpError [] ''Limit exceeded'' 429
                else Written [(''content-type'', tokenResponseMediaType (fst (rs ! j)))]
                       (blindSignature a'))"
      by blast
    then show ?thesis using p h Suc by (simp add: serve_Cons add.commute add.left_commute del: serve.simps)
  qed
qed

text \<open>
  The run in which nothing else touches the key that line 266 counts under. A pair is not
  recorded yet, the encoding of its index differs from that of its origin id, nothing is
  counted under the index for that client, and every request served is the pair's own,
  passing every check with one limit of at least 1 and one index. Then request number
  \<open>k + 1\<close> is answered with the Issuer's signed bytes when \<open>k < limit\<close> and with status
  429 otherwise.
\<close>

lemma quota_first_requests_succeed:
  assumes "1 \<le> limit"
    and "index \<noteq> origin"
    and "\<forall>(env, req) \<in> set rs. admittedAs env req cid origin index limit"
    and "unseenPair clientState cid origin index"
    and "k < length rs"
  shows "case rs ! k of
           (env, req) \<Rightarrow>
             \<exists>a. admission env req = Some a \<and>
               fst (snd (serve clientState rs)) ! k =
                 (if int k < limit
                  then Written [(''content-type'', tokenResponseMediaType env)] (blindSignature a)
                  else HttpError [] ''Limit exceeded'' 429)"
proof (cases rs)
  case Nil
  with assms(5) show ?thesis by simp
next
  case (Cons p rest)
  obtain env req where p: "p = (env, req)" by (cases p)
  from assms(3) Cons p obtain a where a: "admission env req = Some a"
    and af: "clientID a = cid" "anonOriginEnc a = origin" "indexEnc a = index" "tokenLimit a = limit"
    by (auto simp: admittedAs_def split: option.splits)
  let ?u = "updateClientState env clientState a"
  from admission_step[OF a, of clientState] obtain sent
    where h: "handleAttestationRequest env clientState req = (fst ?u, snd ?u, sent)" by blast
  have fresh: "case clientState (clientID a) of
                 None \<Rightarrow> True
               | Some state \<Rightarrow> originIndices state (anonOriginEnc a) = None"
    using assms(4) af by (auto simp: unseenPair_def split: option.splits)
  from update_first(1)[where clientState=clientState and a=a and env=env, OF fresh]
  have r0: "snd ?u = Written [(''content-type'', tokenResponseMediaType env)] (blindSignature a)" .
  from update_first(2)[where clientState=clientState and a=a and env=env, OF fresh] obtain state'
    where s': "fst ?u cid = Some state'" "originIndices state' origin = Some index"
      and cnt: "\<And>k. k \<noteq> origin \<Longrightarrow> count (originCounts state') k =
                 (case clientState cid of None \<Rightarrow> 0 | Some state \<Rightarrow> count (originCounts state) k)"
    using af by auto
  from cnt[OF assms(2)] assms(4) have c0: "count (originCounts state') index = 0"
    by (auto simp: unseenPair_def split: option.splits)
  show ?thesis
  proof (cases k)
    case 0
    then show ?thesis using Cons p a h r0 assms(1) by (simp add: serve_Cons del: serve.simps)
  next
    case (Suc j)
    with assms(5) Cons have j: "j < length rest" by simp
    from assms(3) Cons have rest: "\<forall>(env, req) \<in> set rest. admittedAs env req cid origin index limit"
      by simp
    from serve_known_pair[where clientState="fst ?u" and state=state' and c=0 and k=j, OF rest s' c0 j] obtain a'
      where "admission (fst (rest ! j)) (snd (rest ! j)) = Some a'"
        and "fst (snd (serve (fst ?u) rest)) ! j =
               (if 0 + int j + 1 \<ge> limit then HttpError [] ''Limit exceeded'' 429
                else Written [(''content-type'', tokenResponseMediaType (fst (rest ! j)))]
                       (blindSignature a'))"
      by blast
    then show ?thesis using Cons p h Suc
      by (cases "rest ! j") (auto simp: serve_Cons simp del: serve.simps)
  qed
qed

lemma quota_first_requests_succeed_example:
  "(let rs = [(exampleEnv ''2'', exampleRequest [0, 3, 1] ''o'' ''bb''),
              (exampleEnv ''2'', exampleRequest [0, 3, 1] ''o'' ''bb''),
              (exampleEnv ''2'', exampleRequest [0, 3, 1] ''o'' ''bb'')]
    in unseenPair Map.empty ''default'' ''01'' ''02'' \<and>
       admittedAs (exampleEnv ''2'') (exampleRequest [0, 3, 1] ''o'' ''bb'') ''default'' ''01'' ''02'' 2 \<and>
       fst (snd (serve Map.empty rs)) ! 0 = signedReply [0, 3, 1] \<and>
       fst (snd (serve Map.empty rs)) ! 1 = signedReply [0, 3, 1] \<and>
       fst (snd (serve Map.empty rs)) ! 2 = HttpError [] ''Limit exceeded'' 429)"
proof -
  let ?env = "exampleEnv ''2''" and ?req = "exampleRequest [0, 3, 1] ''o'' ''bb''"
  let ?rs = "[(?env, ?req), (?env, ?req), (?env, ?req)]"
  have adm: "admission ?env ?req =
               Some \<lparr>clientID = ''default'', anonOriginEnc = ''01'', indexEnc = ''02'',
                     tokenLimit = 2, blindSignature = [0, 3, 1], err = None\<rparr>"
    by (simp add: admission_example Atoi_example EncodeToString_example)
  have h1: "(1::int) \<le> 2" by simp
  have h2: "''02'' \<noteq> ''01''" by simp
  have h3: "\<forall>(env, req) \<in> set ?rs. admittedAs env req ''default'' ''01'' ''02'' 2"
    by (simp add: admittedAs_def adm)
  have h4: "unseenPair Map.empty ''default'' ''01'' ''02''"
    by (simp add: unseenPair_def)
  have k0: "0 < length ?rs" and k1: "1 < length ?rs" and k2: "2 < length ?rs" by simp_all
  from quota_first_requests_succeed[OF h1 h2 h3 h4 k0]
       quota_first_requests_succeed[OF h1 h2 h3 h4 k1]
       quota_first_requests_succeed[OF h1 h2 h3 h4 k2]
       h3 h4
  show ?thesis
    by (simp add: adm signedReply_def exampleEnv_sel Let_def)
qed

text \<open>
  Claim C2 (the code does not do this). The count of a pair is initialised under its
  origin id (lines 240 and 253, as the comment of line 41 says) and incremented and compared
  under its index (line 266), so the number of requests a pair is allowed depends on what
  else is stored under the index key. With the limit 3, a client sends a request of the
  pair (origin \<open>01\<close>, index \<open>02\<close>), one of another origin whose id is \<open>02\<close>, and two
  more of the pair: the pair's third request is rejected with 429 after two successes,
  where the claim requires three. With the limit 2 and a pair whose origin id and index
  are both \<open>01\<close>, the second request is rejected, where the claim requires two successes.
\<close>

theorem quota_counted_under_index:
  "fst (snd (serve Map.empty
               [(exampleEnv ''3'', exampleRequest [0, 3, 1] ''o'' ''bb''),
                (exampleEnv ''3'', exampleRequest [0, 3, 1] ''oo'' ''b''),
                (exampleEnv ''3'', exampleRequest [0, 3, 1] ''o'' ''bb''),
                (exampleEnv ''3'', exampleRequest [0, 3, 1] ''o'' ''bb'')])) =
     [signedReply [0, 3, 1], signedReply [0, 3, 1], signedReply [0, 3, 1],
      HttpError [] ''Limit exceeded'' 429]
   \<and> fst (snd (serve Map.empty
                  [(exampleEnv ''2'', exampleRequest [0, 3, 1] ''o'' ''b''),
                   (exampleEnv ''2'', exampleRequest [0, 3, 1] ''o'' ''b'')])) =
       [signedReply [0, 3, 1], HttpError [] ''Limit exceeded'' 429]"
  by (simp add: handle_example Atoi_example EncodeToString_example updateClientState_def
        signedReply_def exampleEnv_sel count_def)

section \<open>Properties of the Origin\<close>

subsection \<open>Issued challenges\<close>

lemma length_newNonce: "length (newNonce random) = challengeNonceLength"
  by (simp add: newNonce_def)

lemma newNonce_full:
  "length random = challengeNonceLength \<Longrightarrow> newNonce random = random"
  by (simp add: newNonce_def)

lemma foldl_snoc: "foldl (\<lambda>acc x. acc @ [x]) ys xs = ys @ xs"
  by (induction xs arbitrary: ys) simp_all

lemma defaultOriginInfo_eq: "defaultOriginInfo org = originName org # additionalOriginInfo org"
  by (simp add: defaultOriginInfo_def foldl_snoc)

lemma enqueue_eq:
  "enqueue m contextEnc challenge =
     m(contextEnc \<mapsto> (case m contextEnc of None \<Rightarrow> [] | Some q \<Rightarrow> q) @ [challenge])"
  by (simp add: enqueue_def Let_def split: option.splits)

lemma challenges_CreateChallenge:
  "challenges (fst (CreateChallenge env org req random)) =
     enqueue (challenges org) (contextOf env (newChallenge env org req random))
       (newChallenge env org req random)"
  by (simp add: CreateChallenge_def Let_def contextOf_def)

subsection \<open>The Origin on concrete requests\<close>

lemma exampleOriginEnv_sel:
  "RateLimitedTokenType exampleOriginEnv = 3"
  "BasicPublicTokenType exampleOriginEnv = 2"
  "sha384 exampleOriginEnv = (\<lambda>m. m)"
  "sha256 exampleOriginEnv = (\<lambda>m. m)"
  "base64Encode exampleOriginEnv = EncodeToString"
  "base64Decode exampleOriginEnv =
     (\<lambda>s. if s = ''AQA='' then Some [1, 0] else if s = ''AAA='' then Some [0, 0] else None)"
  "Marshal exampleOriginEnv =
     (\<lambda>c. [of_nat (length (OriginInfo c)), of_nat (length (RedemptionNonce c))])"
  "UnmarshalToken exampleOriginEnv =
     (\<lambda>v. Some \<lparr>Context = v, AuthenticatorInput = v, Authenticator = v\<rparr>)"
  "VerifyPSS exampleOriginEnv =
     (\<lambda>key digest sig. case key of None \<Rightarrow> None | Some (n, e) \<Rightarrow> Some (n = 1))"
  "fetch exampleOriginEnv = (\<lambda>url. Inr [42])"
  by (simp_all add: exampleOriginEnv_def)

lemma exampleOrigin_sel:
  "issuerName (exampleOrigin m) = ''issuer.example''"
  "originName (exampleOrigin m) = ''origin.example''"
  "additionalOriginInfo (exampleOrigin m) = []"
  "rateLimitedTokenKeyEnc (exampleOrigin m) = [1]"
  "rateLimitedTokenKey (exampleOrigin m) = Some (1, 65537)"
  "basicTokenKeyEnc (exampleOrigin m) = [2]"
  "basicValidationKey (exampleOrigin m) = Some (2, 65537)"
  "issuerEncapKey (exampleOrigin m) = [3]"
  "challenges (exampleOrigin m) = m"
  "(exampleOrigin m)\<lparr>challenges := m'\<rparr> = exampleOrigin m'"
  by (simp_all add: exampleOrigin_def)

lemma signals_example:
  "nonInteractive challengeRequest" "\<not> crossOrigin challengeRequest"
  "\<not> nonInteractive plainRequest" "\<not> crossOrigin plainRequest"
  "\<not> nonInteractive crossOriginRequest" "crossOrigin crossOriginRequest"
  by (simp_all add: nonInteractive_def crossOrigin_def challengeRequest_def plainRequest_def
        crossOriginRequest_def Get_def headerTokenAttributeNoninteractive_def
        headerTokenAttributeCrossOrigin_def headerTokenAttributeChallengeCount_def)

lemma tokenTypeAndKey_example:
  "tokenTypeAndKey exampleOriginEnv (exampleOrigin m) challengeRequest = (3, ''01'')"
  by (simp add: tokenTypeAndKey_def exampleOriginEnv_sel exampleOrigin_sel challengeRequest_def
        Get_def headerTokenType_def headerTokenAttributeNoninteractive_def
        headerTokenAttributeChallengeCount_def EncodeToString_example)

lemma newChallenge_example:
  "newChallenge exampleOriginEnv (exampleOrigin m) challengeRequest random = exampleChallenge 3"
  by (simp add: newChallenge_def signals_example tokenTypeAndKey_example defaultOriginInfo_eq
        exampleOrigin_sel exampleChallenge_def)

lemma EncodeToString_0100: "EncodeToString [1, 0] = ''0100''"
  by (simp add: EncodeToString_def hexDigit_def)





lemma redeemRequest_sel:
  "Get (Header (redeemRequest credential)) ''Authorization'' = ''PrivateToken token='' @ credential"
  by (simp add: redeemRequest_def Get_def)

lemma decodeCredential_example:
  "decodeCredential exampleOriginEnv ''PrivateToken token=AQA='' = Some (exampleToken [1, 0])"
  "decodeCredential exampleOriginEnv ''PrivateToken token=AAA='' = Some (exampleToken [0, 0])"
  by (simp_all add: decodeCredential_def tokenPrefix_def privateTokenType_def HasPrefix_def
        exampleOriginEnv_sel exampleToken_def)

lemma exampleToken_sel:
  "Context (exampleToken v) = v" "AuthenticatorInput (exampleToken v) = v"
  "Authenticator (exampleToken v) = v"
  by (simp_all add: exampleToken_def)

text \<open>
  Claim C7. The challenge issued for a request has an empty redemption nonce when the
  request signals non-interactive (header or query parameter), and otherwise the 32-byte
  buffer filled from the random source (the bytes read, when 32 are delivered); it has an
  empty origin-info list when the request signals cross-origin, and otherwise the
  configured origin name followed by the additional configured names. That challenge is
  the one whose serialization is returned and which is appended to the queue of its
  context.
\<close>

theorem challenge_nonce_and_origin_info:
  "RedemptionNonce (newChallenge env org req random) =
     (if nonInteractive req then [] else newNonce random) \<and>
   length (newNonce random) = 32 \<and>
   (length random = 32 \<longrightarrow> newNonce random = random) \<and>
   OriginInfo (newChallenge env org req random) =
     (if crossOrigin req then [] else originName org # additionalOriginInfo org) \<and>
   (case CreateChallenge env org req random of
      (org', challengeEnc, tokenKey) \<Rightarrow>
        challengeEnc = base64Encode env (Marshal env (newChallenge env org req random)) \<and>
        challenges org' (contextOf env (newChallenge env org req random)) =
          Some ((case challenges org (contextOf env (newChallenge env org req random)) of
                   None \<Rightarrow> [] | Some q \<Rightarrow> q) @ [newChallenge env org req random]))"
  by (simp add: newChallenge_def Let_def defaultOriginInfo_eq length_newNonce newNonce_full
        challengeNonceLength_def CreateChallenge_def contextOf_def enqueue_eq)

theorem challenge_nonce_and_origin_info_witness:
  "nonInteractive challengeRequest \<and>
   RedemptionNonce (newChallenge exampleOriginEnv (exampleOrigin Map.empty) challengeRequest
                      (replicate 32 7)) = [] \<and>
   crossOrigin crossOriginRequest \<and>
   OriginInfo (newChallenge exampleOriginEnv (exampleOrigin Map.empty) crossOriginRequest
                 (replicate 32 7)) = [] \<and>
   RedemptionNonce (newChallenge exampleOriginEnv (exampleOrigin Map.empty) plainRequest
                      (replicate 32 7)) = replicate 32 7 \<and>
   OriginInfo (newChallenge exampleOriginEnv (exampleOrigin Map.empty) plainRequest
                 (replicate 32 7)) = [''origin.example'']"
  using challenge_nonce_and_origin_info
          [of exampleOriginEnv "exampleOrigin Map.empty" challengeRequest "replicate 32 7"]
        challenge_nonce_and_origin_info
          [of exampleOriginEnv "exampleOrigin Map.empty" crossOriginRequest "replicate 32 7"]
        challenge_nonce_and_origin_info
          [of exampleOriginEnv "exampleOrigin Map.empty" plainRequest "replicate 32 7"]
  by (simp add: signals_example exampleOrigin_sel newNonce_full challengeNonceLength_def)

subsection \<open>The challenge map\<close>

lemma queuesNonEmpty_enqueue:
  assumes "queuesNonEmpty org"
  shows "queuesNonEmpty (org\<lparr>challenges := enqueue (challenges org) contextEnc challenge\<rparr>)"
  using assms by (auto simp: queuesNonEmpty_def enqueue_eq)

lemma queuesNonEmpty_CreateChallenge:
  assumes "queuesNonEmpty org"
  shows "queuesNonEmpty (fst (CreateChallenge env org req random))"
  using queuesNonEmpty_enqueue[OF assms] by (simp add: CreateChallenge_def Let_def)

lemma queuesNonEmpty_challengeLoop:
  assumes "queuesNonEmpty org"
  shows "queuesNonEmpty (fst (challengeLoop env req random i n org challengeList))"
  using assms
proof (induction n arbitrary: i org challengeList)
  case 0
  then show ?case by simp
next
  case (Suc n)
  obtain org' challengeEnc tokenKeyEnc
    where c: "CreateChallenge env org req (random i) = (org', challengeEnc, tokenKeyEnc)"
    by (cases "CreateChallenge env org req (random i)")
  from queuesNonEmpty_CreateChallenge[OF Suc.prems, of env req "random i"] c
  have "queuesNonEmpty org'" by simp
  from Suc.IH[OF this] c show ?case by (simp add: Let_def)
qed

lemma dequeue_eq:
  "dequeue m contextEnc rest =
     (if rest = [] then m(contextEnc := None) else m(contextEnc \<mapsto> rest))"
  by (simp add: dequeue_def Let_def)

lemma challenges_redeem:
  assumes "challenges org (EncodeToString (Context token)) = Some (challenge # rest)"
  shows "challenges (fst (redeem env org token)) =
           dequeue (challenges org) (EncodeToString (Context token)) rest"
  using assms
  by (simp add: redeem_def Let_def split: option.splits sum.splits)

lemma redeem_unchanged:
  assumes "challenges org (EncodeToString (Context token)) = None \<or>
           challenges org (EncodeToString (Context token)) = Some []"
  shows "fst (redeem env org token) = org"
  using assms by (auto simp: redeem_def Let_def)

lemma queuesNonEmpty_redeem:
  assumes "queuesNonEmpty org"
  shows "queuesNonEmpty (fst (redeem env org token))"
proof (cases "challenges org (EncodeToString (Context token))")
  case None
  then show ?thesis using assms by (simp add: redeem_unchanged)
next
  case (Some q)
  with assms obtain challenge rest where q: "q = challenge # rest"
    by (cases q) (auto simp: queuesNonEmpty_def)
  from challenges_redeem[of org token challenge rest env] Some q
  have "challenges (fst (redeem env org token)) =
          dequeue (challenges org) (EncodeToString (Context token)) rest" by simp
  with assms show ?thesis
    by (auto simp: queuesNonEmpty_def dequeue_eq split: if_splits)
qed

lemma queuesNonEmpty_handleRequest:
  assumes "queuesNonEmpty org"
  shows "queuesNonEmpty (fst (handleRequest env org req random))"
  using queuesNonEmpty_challengeLoop[OF assms, of env req random 0 "challengeCount req" "[]"]
        queuesNonEmpty_redeem[OF assms] assms
  by (auto simp: handleRequest_def split: prod.splits option.splits)

lemma redeem_no_queue:
  "challenges org (EncodeToString (Context token)) = None \<Longrightarrow>
   redeem env org token = (org, HttpError [] (StatusText 400) 400)"
  by (simp add: redeem_def)

lemma redeem_verification_failure:
  assumes "challenges org (EncodeToString (Context token)) = Some (challenge # rest)"
    and "VerifyPSS env (validationKey env org challenge) (sha384 env (AuthenticatorInput token))
           (Authenticator token) = Some False"
  shows "snd (redeem env org token) = HttpError [] (StatusText 400) 400"
  using assms by (simp add: redeem_def Let_def)

lemma handleRequest_credential:
  assumes "Get (Header req) ''Authorization'' \<noteq> []"
    and "decodeCredential env (Get (Header req) ''Authorization'') = Some token"
  shows "handleRequest env org req random = redeem env org token"
  using assms by (simp add: handleRequest_def)




lemma queuesNonEmpty_example:
  "queuesNonEmpty (exampleOrigin Map.empty)"
  "queuesNonEmpty (exampleOrigin [''0100'' \<mapsto> c # cs])"
  by (simp_all add: queuesNonEmpty_def exampleOrigin_sel)

text \<open>
  Claim C8. When every context present in the challenges map holds a non-empty queue,
  this still holds after \<^verbatim>\<open>CreateChallenge\<close> and after \<^verbatim>\<open>handleRequest\<close> (which issues
  challenges or redeems a token). Creation appends the new challenge at the end of the
  queue of its context, creating the queue when there is none; a redemption that finds the
  queue \<open>challenge # rest\<close> leaves \<open>rest\<close>, the oldest entry popped, and deletes the map
  entry when \<open>rest\<close> is empty.
\<close>

theorem challenge_queues_stay_non_empty:
  assumes "queuesNonEmpty org"
  shows "queuesNonEmpty (fst (CreateChallenge env org req random)) \<and>
         challenges (fst (CreateChallenge env org req random)) =
           (challenges org)
             (contextOf env (newChallenge env org req random) \<mapsto>
                (case challenges org (contextOf env (newChallenge env org req random)) of
                   None \<Rightarrow> [] | Some q \<Rightarrow> q) @ [newChallenge env org req random]) \<and>
         queuesNonEmpty (fst (handleRequest env org req' random')) \<and>
         (\<forall>token challenge rest.
            Get (Header req') ''Authorization'' \<noteq> [] \<and>
            decodeCredential env (Get (Header req') ''Authorization'') = Some token \<and>
            challenges org (EncodeToString (Context token)) = Some (challenge # rest) \<longrightarrow>
              challenges (fst (handleRequest env org req' random')) =
                (if rest = [] then (challenges org)(EncodeToString (Context token) := None)
                 else (challenges org)(EncodeToString (Context token) \<mapsto> rest)))"
  using queuesNonEmpty_CreateChallenge[OF assms, of env req random]
        queuesNonEmpty_handleRequest[OF assms, of env req' random']
        challenges_redeem[of org _ _ _ env]
  by (auto simp: challenges_CreateChallenge enqueue_eq handleRequest_credential dequeue_eq)

theorem challenge_queues_stay_non_empty_witness:
  "(let org = exampleOrigin [''0100'' \<mapsto> [exampleChallenge 3]]
    in queuesNonEmpty org \<and>
       queuesNonEmpty (fst (CreateChallenge exampleOriginEnv org challengeRequest [])) \<and>
       challenges (fst (CreateChallenge exampleOriginEnv org challengeRequest [])) =
         [''0100'' \<mapsto> [exampleChallenge 3, exampleChallenge 3]] \<and>
       queuesNonEmpty (fst (handleRequest exampleOriginEnv org (redeemRequest ''AQA='') (\<lambda>i. []))) \<and>
       challenges (fst (handleRequest exampleOriginEnv org (redeemRequest ''AQA='') (\<lambda>i. []))) =
         Map.empty)"
proof -
  let ?org = "exampleOrigin [''0100'' \<mapsto> [exampleChallenge 3]]"
  let ?req = "redeemRequest ''AQA=''"
  have inv: "queuesNonEmpty ?org"
    by (rule queuesNonEmpty_example)
  have h1: "Get (Header ?req) ''Authorization'' \<noteq> []"
    by (simp add: redeemRequest_sel)
  have h2: "decodeCredential exampleOriginEnv (Get (Header ?req) ''Authorization'') =
              Some (exampleToken [1, 0])"
    by (simp add: redeemRequest_sel decodeCredential_example)
  have h3: "challenges ?org (EncodeToString (Context (exampleToken [1, 0]))) =
              Some [exampleChallenge 3]"
    by (simp add: exampleToken_sel EncodeToString_0100 exampleOrigin_sel)
  have c: "contextOf exampleOriginEnv (exampleChallenge 3) = ''0100''"
    by (simp add: contextOf_def exampleOriginEnv_sel exampleChallenge_def EncodeToString_0100)
  from challenge_queues_stay_non_empty[OF inv, of exampleOriginEnv challengeRequest "[]" ?req "\<lambda>i. []"]
  have "queuesNonEmpty (fst (CreateChallenge exampleOriginEnv ?org challengeRequest []))"
    and "challenges (fst (CreateChallenge exampleOriginEnv ?org challengeRequest [])) =
           [''0100'' \<mapsto> [exampleChallenge 3, exampleChallenge 3]]"
    and "queuesNonEmpty (fst (handleRequest exampleOriginEnv ?org ?req (\<lambda>i. [])))"
    and "\<forall>token challenge rest.
            Get (Header ?req) ''Authorization'' \<noteq> [] \<and>
            decodeCredential exampleOriginEnv (Get (Header ?req) ''Authorization'') = Some token \<and>
            challenges ?org (EncodeToString (Context token)) = Some (challenge # rest) \<longrightarrow>
              challenges (fst (handleRequest exampleOriginEnv ?org ?req (\<lambda>i. []))) =
                (if rest = [] then (challenges ?org)(EncodeToString (Context token) := None)
                 else (challenges ?org)(EncodeToString (Context token) \<mapsto> rest))"
    by (simp_all add: newChallenge_example c exampleOrigin_sel)
  moreover from this(4) h1 h2 h3
  have "challenges (fst (handleRequest exampleOriginEnv ?org ?req (\<lambda>i. []))) = Map.empty"
    by (simp add: exampleToken_sel EncodeToString_0100 exampleOrigin_sel)
  ultimately show ?thesis using inv by (simp add: Let_def)
qed

subsection \<open>Redemption\<close>

text \<open>
  Claim C4. A redemption attempt is a request whose Authorization header decodes to a
  token. When the map has no queue for the token's context, the request is rejected with
  status 400 and the Origin is unchanged. When it has the queue \<open>challenge # rest\<close>
  (queues are never empty, claim C8), the oldest challenge is popped whatever the
  verification gives, and when the verification of the authenticator fails the request is
  rejected with status 400: the Origin after the request holds \<open>rest\<close>, the popped
  challenge is not queued again.
\<close>

theorem redemption_pops_then_verifies:
  assumes "Get (Header req) ''Authorization'' \<noteq> []"
    and "decodeCredential env (Get (Header req) ''Authorization'') = Some token"
  shows "(challenges org (EncodeToString (Context token)) = None \<longrightarrow>
            handleRequest env org req random = (org, HttpError [] (StatusText 400) 400) \<and>
            statusCode (snd (handleRequest env org req random)) = Some 400) \<and>
         (\<forall>challenge rest.
            challenges org (EncodeToString (Context token)) = Some (challenge # rest) \<longrightarrow>
              challenges (fst (handleRequest env org req random)) =
                (if rest = [] then (challenges org)(EncodeToString (Context token) := None)
                 else (challenges org)(EncodeToString (Context token) \<mapsto> rest)) \<and>
              (VerifyPSS env (validationKey env org challenge)
                 (sha384 env (AuthenticatorInput token)) (Authenticator token) = Some False \<longrightarrow>
               snd (handleRequest env org req random) = HttpError [] (StatusText 400) 400 \<and>
               statusCode (snd (handleRequest env org req random)) = Some 400))"
  using redeem_no_queue[of org token env] redeem_verification_failure[of org token _ _ env]
        challenges_redeem[of org token _ _ env]
  by (simp add: handleRequest_credential[OF assms] dequeue_eq)

theorem redemption_pops_then_verifies_witness:
  "handleRequest exampleOriginEnv (exampleOrigin Map.empty) (redeemRequest ''AQA='') (\<lambda>i. []) =
     (exampleOrigin Map.empty, HttpError [] ''Bad Request'' 400) \<and>
   VerifyPSS exampleOriginEnv
     (validationKey exampleOriginEnv
        (exampleOrigin [''0100'' \<mapsto> [exampleChallenge 2, exampleChallenge 3]])
        (exampleChallenge 2))
     (sha384 exampleOriginEnv [1, 0]) [1, 0] = Some False \<and>
   challenges (fst (handleRequest exampleOriginEnv
                      (exampleOrigin [''0100'' \<mapsto> [exampleChallenge 2, exampleChallenge 3]])
                      (redeemRequest ''AQA='') (\<lambda>i. []))) =
     [''0100'' \<mapsto> [exampleChallenge 3]] \<and>
   snd (handleRequest exampleOriginEnv
          (exampleOrigin [''0100'' \<mapsto> [exampleChallenge 2, exampleChallenge 3]])
          (redeemRequest ''AQA='') (\<lambda>i. [])) = HttpError [] ''Bad Request'' 400"
proof -
  let ?org = "exampleOrigin [''0100'' \<mapsto> [exampleChallenge 2, exampleChallenge 3]]"
  let ?req = "redeemRequest ''AQA=''"
  have h1: "Get (Header ?req) ''Authorization'' \<noteq> []"
    by (simp add: redeemRequest_sel)
  have h2: "decodeCredential exampleOriginEnv (Get (Header ?req) ''Authorization'') =
              Some (exampleToken [1, 0])"
    by (simp add: redeemRequest_sel decodeCredential_example)
  have v: "VerifyPSS exampleOriginEnv (validationKey exampleOriginEnv ?org (exampleChallenge 2))
             (sha384 exampleOriginEnv [1, 0]) [1, 0] = Some False"
    by (simp add: validationKey_def exampleChallenge_def exampleOriginEnv_sel exampleOrigin_sel)
  from redemption_pops_then_verifies[OF h1 h2, of "exampleOrigin Map.empty" "\<lambda>i. []"]
       redemption_pops_then_verifies[OF h1 h2, of ?org "\<lambda>i. []"] v
  show ?thesis
    by (simp add: exampleToken_sel EncodeToString_0100 exampleOrigin_sel StatusText_def
          exampleOriginEnv_sel)
qed




end
